theory Spec2Isabelle
  imports Main "HOL-Library.Char_ord" "HOL-Library.List_Lexorder" "HOL-Library.Product_Lexorder"
    "HOL-Library.AList" "HOL-Library.Multiset"
begin

section \<open>CLA-dwight: the signature cache and reload engine of server.mjs\<close>

text \<open>
  The development follows \<^verbatim>\<open>src/server.mjs\<close>. Asynchronous functions are modelled by
  their results: a rejected promise or a thrown exception is \<open>Inl\<close> of the error, a
  fulfilled one is \<open>Inr\<close> of the value. What the outside world answers during one call
  (the CLA assistant, the file system, the clock) is an explicit argument.
\<close>

subsection \<open>Errors\<close>

text \<open>
  \<open>Exn name message cause\<close> is an error object with the given \<open>name\<close> and \<open>message\<close>
  and the optional \<open>cause\<close> of \<^verbatim>\<open>new Error(message, { cause })\<close>. An \<open>AggregateError\<close>
  carries its \<open>errors\<close> list and its message. The members of \<open>errors\<close> are whatever the
  iterable given to the constructor yields: error objects or plain strings.
\<close>

datatype 'e agg_item = ItemStr string | ItemErr 'e

datatype exn =
    Exn string string "exn option"
  | AggregateError "exn agg_item list" string

definition Error :: "string \<Rightarrow> exn option \<Rightarrow> exn" where
  "Error msg cause = Exn ''Error'' msg cause"

definition TypeError :: "string \<Rightarrow> exn" where
  "TypeError msg = Exn ''TypeError'' msg None"

text \<open>
  \<^verbatim>\<open>Error.prototype.toString\<close>: the name, then \<^verbatim>\<open>": "\<close>, then the message; only one of the
  two when the other is empty.
\<close>

fun exn_toString :: "exn \<Rightarrow> string" where
  "exn_toString (Exn name msg cause) =
     (if name = [] then msg else if msg = [] then name else name @ '': '' @ msg)"
| "exn_toString (AggregateError errs msg) =
     (if msg = [] then ''AggregateError'' else ''AggregateError: '' @ msg)"

text \<open>
  The two values the source passes to the \<open>AggregateError\<close> constructor are a string and
  an array of errors. The constructor of ECMAScript is
  \<^verbatim>\<open>new AggregateError(errors, message)\<close>: its first argument is iterated to fill
  \<open>errors\<close> (a string yields its characters, an array its elements) and its second
  argument is converted with \<open>ToString\<close> to become the message (an array is joined
  with commas).
\<close>

datatype js_arg = ArgStr string | ArgErrs "exn list"

fun join :: "string \<Rightarrow> string list \<Rightarrow> string" where
  "join sep [] = []"
| "join sep [x] = x"
| "join sep (x # y # ys) = x @ sep @ join sep (y # ys)"

fun iterate :: "js_arg \<Rightarrow> exn agg_item list" where
  "iterate (ArgStr s) = map (\<lambda>c. ItemStr [c]) s"
| "iterate (ArgErrs es) = map ItemErr es"

fun ToString :: "js_arg \<Rightarrow> string" where
  "ToString (ArgStr s) = s"
| "ToString (ArgErrs es) = join '','' (map exn_toString es)"

definition new_AggregateError :: "js_arg \<Rightarrow> js_arg \<Rightarrow> exn" where
  "new_AggregateError errors message = AggregateError (iterate errors) (ToString message)"

subsection \<open>Signatures and their order\<close>

text \<open>
  A signature as the CLA assistant returns it and as \<open>getSignatures\<close> completes it, or as
  \<open>signatureFromUpload\<close> builds it. Fields that one of the two producers leaves out are
  optional: \<open>None\<close> is JavaScript's \<open>undefined\<close>. A locally uploaded signature has no
  \<open>gist_version\<close> and no \<open>gist_committed_at\<close>; an upstream one has no \<open>origin\<close>.
  The custom fields are kept unparsed (\<open>Unparsed\<close>) when the upstream string is empty,
  since the source parses them only when the string is truthy.
\<close>

datatype custom_fields = Unparsed string | Parsed "(string \<times> string) list"

record signature =
  sig_id :: string
  user :: string
  created_at :: string
  updated_at :: string
  revoked_at :: "string option"
  gist_url :: "string option"
  gist_version :: "string option"
  gist_committed_at :: "string option"
  gist_filename :: "string option"
  custom_fields :: "custom_fields option"
  origin :: "string option"

text \<open>
  JavaScript's \<^verbatim>\<open><\<close> on two values that are strings or \<open>undefined\<close>: strings compare
  lexicographically by their code units (the timestamps are ASCII, where this is the
  order of \<open>string\<close>), and any comparison with \<open>undefined\<close> is false. \<^verbatim>\<open>!=\<close> on such
  values is plain inequality.
\<close>

fun js_lt :: "string option \<Rightarrow> string option \<Rightarrow> bool" where
  "js_lt (Some x) (Some y) = (x < y)"
| "js_lt _ _ = False"

definition signatureComparer :: "signature \<Rightarrow> signature \<Rightarrow> int" where
  "signatureComparer a b =
     (if created_at a < created_at b then 1
      else if created_at a \<noteq> created_at b then - 1
      else if js_lt (gist_committed_at a) (gist_committed_at b) then 1
      else if gist_committed_at a \<noteq> gist_committed_at b then - 1
      else if updated_at a < updated_at b then 1
      else if updated_at a \<noteq> updated_at b then - 1
      else 0)"

subsection \<open>Array.prototype.sort\<close>

text \<open>
  ECMAScript fixes the result of \<^verbatim>\<open>sort\<close> only for a consistent comparator (then it is the
  stable sort); otherwise the order is left to the implementation. The service runs on
  Node.js, whose engine sorts an array of fewer than 64 elements as follows: it finds the
  run at the start of the array (\<open>countAndMakeRun\<close>: ascending, or strictly descending
  and then reversed), and inserts every later element into the sorted prefix by binary
  search (\<open>binaryInsertionSort\<close>). The model is this algorithm; longer arrays, which the
  engine cuts into several runs and merges, are sorted the same way here. The model is
  a stable sort, so for a consistent comparator it gives the one result that every
  stable sort gives, whatever the length; with an inconsistent comparator it gives
  the engine's order for fewer than 64 elements and some permutation beyond.
\<close>

fun runLength :: "('a \<Rightarrow> 'a \<Rightarrow> int) \<Rightarrow> bool \<Rightarrow> 'a \<Rightarrow> 'a list \<Rightarrow> nat" where
  "runLength cmp isDescending previousElement [] = 0"
| "runLength cmp isDescending previousElement (currentElement # rest) =
     (let order = cmp currentElement previousElement in
      if (if isDescending then order \<ge> 0 else order < 0) then 0
      else Suc (runLength cmp isDescending currentElement rest))"

fun countAndMakeRun :: "('a \<Rightarrow> 'a \<Rightarrow> int) \<Rightarrow> 'a list \<Rightarrow> nat \<times> 'a list" where
  "countAndMakeRun cmp (elementHigh # elementLow # rest) =
     (let isDescending = (cmp elementLow elementHigh < 0);
          n = 2 + runLength cmp isDescending elementLow rest;
          workArray = elementHigh # elementLow # rest
      in (n, if isDescending then rev (take n workArray) @ drop n workArray else workArray))"
| "countAndMakeRun cmp workArray = (length workArray, workArray)"

function bsearch :: "('a \<Rightarrow> 'a \<Rightarrow> int) \<Rightarrow> 'a \<Rightarrow> 'a list \<Rightarrow> nat \<Rightarrow> nat \<Rightarrow> nat" where
  "bsearch cmp pivot a left right =
     (if left < right then
        (let mid = left + (right - left) div 2 in
         if cmp pivot (a ! mid) < 0 then bsearch cmp pivot a left mid
         else bsearch cmp pivot a (mid + 1) right)
      else left)"
  by pat_completeness auto
termination
  by (relation "measure (\<lambda>(cmp, pivot, a, left, right). right - left)") auto

declare bsearch.simps [simp del]

fun binaryInsertionSort :: "('a \<Rightarrow> 'a \<Rightarrow> int) \<Rightarrow> 'a list \<Rightarrow> 'a list \<Rightarrow> 'a list" where
  "binaryInsertionSort cmp done [] = done"
| "binaryInsertionSort cmp done (pivot # rest) =
     (let left = bsearch cmp pivot done 0 (length done)
      in binaryInsertionSort cmp (take left done @ pivot # drop left done) rest)"

definition js_sort :: "('a \<Rightarrow> 'a \<Rightarrow> int) \<Rightarrow> 'a list \<Rightarrow> 'a list" where
  "js_sort cmp xs =
     (if length xs < 2 then xs
      else (let (n, workArray) = countAndMakeRun cmp xs
            in binaryInsertionSort cmp (take n workArray) (drop n workArray)))"

subsection \<open>The CLA assistant: getGist, getSignatures, getSignees\<close>

text \<open>
  The answer of the \<^verbatim>\<open>/cla/getGist\<close> call, as far as the source reads it: \<open>html_url\<close>,
  the keys of \<open>files\<close>, and the entries of \<open>history\<close>.
\<close>

record history_entry =
  h_version :: string
  h_committed_at :: string
  h_url :: string

record gist_response =
  html_url :: string
  files :: "string list"
  history :: "history_entry list"

record version =
  version :: string
  committed :: string
  version_url :: string

record gist =
  url :: string
  filename :: "string option"
  versions :: "version list"

definition getGist :: "exn + gist_response \<Rightarrow> exn + gist" where
  "getGist response =
     (case response of
        Inl error \<Rightarrow> Inl (Error ''Failed to receive gist for the organization.'' (Some error))
      | Inr data \<Rightarrow>
          (let gist = \<lparr>url = html_url data,
                       filename = find (\<lambda>f. f \<noteq> ''metadata'') (files data),
                       versions = map (\<lambda>h. \<lparr>version = h_version h,
                                               committed = h_committed_at h,
                                               version_url = h_url h\<rparr>) (history data)\<rparr>
           in if length (versions gist) > 0 then Inr gist
              else Inl (Error ''Failed to receive gist for the organization.''
                          (Some (Error ''No gist history available.'' None)))))"

text \<open>
  The library functions the source calls on strings are collected in one record and
  passed as an argument: \<open>JSON_parse\<close> for the custom fields (\<open>None\<close> when
  \<^verbatim>\<open>JSON.parse\<close> throws), and the functions the upload path uses
  (\<open>toISOString d\<close> is \<^verbatim>\<open>new Date(d).toISOString()\<close>, which throws on an invalid date).
\<close>

record lib =
  JSON_parse :: "string \<Rightarrow> (string \<times> string) list option"
  basename :: "string \<Rightarrow> string"
  extname :: "string \<Rightarrow> string"
  encodeURIComponent :: "string \<Rightarrow> string"
  toISOString :: "string \<Rightarrow> exn + string"
  trim :: "string \<Rightarrow> string"
  toLowerCase :: "string \<Rightarrow> string"

fun sequence :: "('e + 'a) list \<Rightarrow> 'e + 'a list" where
  "sequence [] = Inr []"
| "sequence (Inl e # rs) = Inl e"
| "sequence (Inr x # rs) = (case sequence rs of Inl e \<Rightarrow> Inl e | Inr xs \<Rightarrow> Inr (x # xs))"

definition versionsMap :: "gist \<Rightarrow> (string \<times> version) list" where
  "versionsMap gist = foldl (\<lambda>m v. AList.update (version v) v m) [] (versions gist)"

text \<open>The body of the loop over the signatures of one answer in \<open>getSignatures\<close>.\<close>

definition completeSignature :: "lib \<Rightarrow> gist \<Rightarrow> signature \<Rightarrow> exn + signature" where
  "completeSignature lib gist signature =
     (let s1 = (case gist_version signature of
                  None \<Rightarrow> signature
                | Some gv \<Rightarrow>
                    (case map_of (versionsMap gist) gv of
                       None \<Rightarrow> signature
                     | Some v \<Rightarrow> signature\<lparr>gist_committed_at := Some (committed v)\<rparr>));
          s2 = s1\<lparr>gist_filename := filename gist\<rparr>
      in case custom_fields s2 of
           None \<Rightarrow> Inr s2
         | Some (Unparsed str) \<Rightarrow>
             (if str = [] then Inr s2
              else (case JSON_parse lib str of
                      None \<Rightarrow> Inl (Exn ''SyntaxError'' ''Unexpected token in JSON'' None)
                    | Some parsed \<Rightarrow> Inr (s2\<lparr>custom_fields := Some (Parsed parsed)\<rparr>)))
         | Some (Parsed parsed) \<Rightarrow>
             Inl (Exn ''SyntaxError'' ''Unexpected token in JSON'' None))"

definition getSignatures ::
  "lib \<Rightarrow> gist \<Rightarrow> string \<Rightarrow> exn + signature list \<Rightarrow> exn + signature list" where
  "getSignatures lib gist gistVersion response =
     (let failed = (\<lambda>error. Inl (Error (''Failed to receive list of signees for version ''
                                          @ gistVersion @ ''.'') (Some error)))
      in case response of
           Inl error \<Rightarrow> failed error
         | Inr signatures \<Rightarrow>
             (case sequence (map (completeSignature lib gist) signatures) of
                Inl error \<Rightarrow> failed error
              | Inr completed \<Rightarrow> Inr completed))"

text \<open>
  The signee map is a JavaScript \<open>Map\<close> from user to the array of the user's signatures,
  with the extra property \<open>timestamp\<close>. Its entries are kept in insertion order;
  \<open>AList.update\<close> is \<^verbatim>\<open>Map.prototype.set\<close>: it replaces the value of a key that is present and
  appends a new key at the end.
\<close>

record signees =
  entries :: "(string \<times> signature list) list"
  timestamp :: string

definition pushSignature ::
  "(string \<times> signature list) list \<Rightarrow> signature \<Rightarrow> (string \<times> signature list) list" where
  "pushSignature m signature =
     (case map_of m (user signature) of
        Some signatures \<Rightarrow> AList.update (user signature) (signatures @ [signature]) m
      | None \<Rightarrow> AList.update (user signature) [signature] m)"

text \<open>
  The sequential loop of \<open>getSignees\<close> over the versions of the gist: the first call that
  fails ends it. \<open>getAll\<close> gives the answer of the CLA assistant for each version.
\<close>

fun perVersionSignatures ::
  "lib \<Rightarrow> gist \<Rightarrow> (string \<Rightarrow> exn + signature list) \<Rightarrow> version list \<Rightarrow> exn + signature list list" where
  "perVersionSignatures lib gist getAll [] = Inr []"
| "perVersionSignatures lib gist getAll (v # vs) =
     (case getSignatures lib gist (version v) (getAll (version v)) of
        Inl error \<Rightarrow> Inl error
      | Inr signatures \<Rightarrow>
          (case perVersionSignatures lib gist getAll vs of
             Inl error \<Rightarrow> Inl error
           | Inr rest \<Rightarrow> Inr (signatures # rest)))"

definition buildSignees :: "string \<Rightarrow> signature list list \<Rightarrow> signees" where
  "buildSignees now values =
     \<lparr>entries = map (\<lambda>(u, signee). (u, js_sort signatureComparer signee))
                    (foldl pushSignature [] (concat values)),
      timestamp = now\<rparr>"

definition getSignees ::
  "lib \<Rightarrow> (string \<Rightarrow> exn + signature list) \<Rightarrow> string \<Rightarrow> gist \<Rightarrow> exn + signees" where
  "getSignees lib getAll now gist =
     (case perVersionSignatures lib gist getAll (versions gist) of
        Inl error \<Rightarrow> Inl error
      | Inr values \<Rightarrow> Inr (buildSignees now values))"

subsection \<open>Local signatures\<close>

definition addLocalSignature :: "signees \<Rightarrow> signature \<Rightarrow> bool \<Rightarrow> signees" where
  "addLocalSignature map' signature sort' =
     (case map_of (entries map') (user signature) of
        Some signatures \<Rightarrow>
          map'\<lparr>entries := AList.update (user signature)
                             (if sort' then js_sort signatureComparer (signatures @ [signature])
                              else signatures @ [signature])
                             (entries map')\<rparr>
      | None \<Rightarrow> map'\<lparr>entries := AList.update (user signature) [signature] (entries map')\<rparr>)"

text \<open>
  The directory of local signatures holds one file per signature. A file whose text
  \<^verbatim>\<open>JSON.parse\<close> rejects is \<open>NotJson\<close>; a file whose text is \<^verbatim>\<open>null\<close> is \<open>JsonNull\<close>
  (\<^verbatim>\<open>JSON.parse\<close> accepts it and returns \<open>null\<close>); otherwise the file holds a signature
  object. \<open>parseFile\<close> is \<^verbatim>\<open>JSON.parse(data)\<close> on the text of such a file; in its result and
  in the array that \<open>getLocalSignatures\<close> returns, \<open>None\<close> is the value \<open>null\<close>. (Of the
  JSON values that are not signature objects only \<open>null\<close> is kept apart: it is the one on
  which a property access throws.)

  What the file system does during one call is given by \<open>readdir_fails\<close> and, per file
  name, by \<open>readFile_fails\<close>. The reads are taken to settle in the order of the directory
  listing. The second component of the result lists the files reported with
  \<^verbatim>\<open>console.warn\<close>.
\<close>

datatype local_file = NotJson string | JsonNull | Json signature

fun parseFile :: "local_file \<Rightarrow> exn + signature option" where
  "parseFile (NotJson t) = Inl (Exn ''SyntaxError'' ''Unexpected token in JSON'' None)"
| "parseFile JsonNull = Inr None"
| "parseFile (Json signature) = Inr (Some signature)"

record config =
  CLA_FILELOCAL :: string
  CLA_FILECACHE :: string

record fs_env =
  readdir_fails :: "exn option"
  readFile_fails :: "string \<Rightarrow> exn option"

definition readLocalFile ::
  "'x fs_env_scheme \<Rightarrow> signature option list \<times> string list \<Rightarrow> string \<times> local_file
     \<Rightarrow> signature option list \<times> string list" where
  "readLocalFile env acc entry =
     (case acc of (signatures, warned) \<Rightarrow>
        (case entry of (file, content) \<Rightarrow>
           (case readFile_fails env file of
              Some error \<Rightarrow> (signatures, warned @ [file])
            | None \<Rightarrow>
                (case parseFile content of
                   Inl error \<Rightarrow> (signatures, warned @ [file])
                 | Inr signature \<Rightarrow> (signatures @ [signature], warned)))))"

definition getLocalSignatures ::
  "config \<Rightarrow> 'x fs_env_scheme \<Rightarrow> (string \<times> local_file) list
     \<Rightarrow> exn + signature option list \<times> string list" where
  "getLocalSignatures cfg env dir =
     (if CLA_FILELOCAL cfg = [] then Inr ([], [])
      else (case readdir_fails env of
              Some error \<Rightarrow> Inl error
            | None \<Rightarrow> Inr (foldl (readLocalFile env) ([], []) dir)))"

subsection \<open>The state of the service\<close>

text \<open>
  The three module variables, and the files the service owns: the two files of the file
  cache (what the last successful \<open>writeCacheFile\<close> of each was given), the directory of
  local signatures and the names in the directory of uploads. \<open>None\<close> in
  \<open>globalError\<close> is a falsy value (\<open>false\<close> or \<open>null\<close>); \<open>None\<close> in \<open>globalGist\<close> and
  \<open>globalSignees\<close> is \<open>null\<close>.

  The last component belongs to the process, not to the module. Node.js ends the process
  when a promise is rejected while no handler is attached to it (an unhandled rejection
  is raised as an uncaught exception; the module installs no handler for either).
  \<open>unhandledRejection\<close> holds the error of such a rejection: a state in which it is set
  is the state of a process that has exited, and its other components say what the
  functions would have left behind in a process that is kept running.
\<close>

record state =
  globalError :: "exn option"
  globalGist :: "gist option"
  globalSignees :: "signees option"
  cacheFileGist :: "gist option"
  cacheFileSignees :: "signees option"
  localFiles :: "(string \<times> local_file) list"
  uploads :: "string list"
  unhandledRejection :: "exn option"

subsection \<open>The upload of a local signature: POST /list\<close>

record upload_file =
  originalname :: string
  path :: string

text \<open>
  Of the request the model keeps the method, the uploaded file, the fields of the form,
  and the result of \<^verbatim>\<open>getBasicUserName(request, CLA_SIGN_AUTH)\<close> (\<open>None\<close> is \<open>null\<close>).
\<close>

record request =
  req_method :: string
  basicUserName :: "string option"
  req_file :: "upload_file option"
  body_name :: "string option"
  body_email :: "string option"
  body_employer :: "string option"
  body_signed :: "string option"

record formData =
  fileName :: string
  fileOriginalName :: string
  signerName :: "string option"
  signerEmail :: "string option"
  signerEmployer :: "string option"
  signedDate :: "string option"

record upload_env =
  date_now :: string
  nanoid :: string
  now_iso :: string
  rename_fails :: "exn option"
  writeFile_fails :: "exn option"

fun message :: "exn \<Rightarrow> string" where
  "message (Exn name msg cause) = msg"
| "message (AggregateError errs msg) = msg"

text \<open>\<^verbatim>\<open>!x\<close> for a value that is a string or \<open>undefined\<close>/\<open>null\<close>.\<close>

fun falsy :: "string option \<Rightarrow> bool" where
  "falsy None = True"
| "falsy (Some x) = (x = [])"

text \<open>\<^verbatim>\<open>x || ''\<close> and the string that concatenation makes of \<open>x\<close>.\<close>

fun orEmpty :: "string option \<Rightarrow> string" where
  "orEmpty None = []"
| "orEmpty (Some x) = x"

definition needsAuthorization :: "string option \<Rightarrow> bool" where
  "needsAuthorization user' = falsy user'"

definition signatureFromUpload :: "lib \<Rightarrow> upload_env \<Rightarrow> request \<Rightarrow> formData \<Rightarrow> exn + signature" where
  "signatureFromUpload lib env request formData =
     (let uniqueId = nanoid env;
          now = now_iso env
      in case (case signedDate formData of
                 None \<Rightarrow> Inl (Exn ''RangeError'' ''Invalid time value'' None)
               | Some d \<Rightarrow> toISOString lib d) of
           Inl error \<Rightarrow> Inl error
         | Inr signed \<Rightarrow>
            (let employer = (case signerEmployer formData of None \<Rightarrow> [] | Some e \<Rightarrow> trim lib e);
                 isEmployed = (employer \<noteq> [] \<and> toLowerCase lib employer \<noteq> ''none'');
                 category =
                   (if isEmployed
                    then ''(c) I am contributing as an individual because, even though I am employed, my employer has and claims no rights to my contributions.''
                    else ''(b) I am contributing as an individual because I am self-employed or unemployed. I have read and agree to the CLA.'')
             in Inr \<lparr>sig_id = uniqueId,
                     user = orEmpty (signerEmail formData),
                     created_at = signed,
                     updated_at = now,
                     revoked_at = None,
                     gist_url = Some (encodeURIComponent lib (fileName formData)),
                     gist_version = None,
                     gist_committed_at = None,
                     gist_filename = Some (if fileOriginalName formData \<noteq> []
                                           then fileOriginalName formData else fileName formData),
                     custom_fields = Some (Parsed
                       [(''name'', orEmpty (signerName formData)),
                        (''email'', orEmpty (signerEmail formData)),
                        (''employer'', if employer = [] then ''none'' else employer),
                        (''category'', category)]),
                     origin = Some (''local|'' @ (case basicUserName request of
                                                    None \<Rightarrow> ''null'' | Some u \<Rightarrow> u))\<rparr>))"

definition localFileName :: "signature \<Rightarrow> string" where
  "localFileName signature =
     (case gist_url signature of None \<Rightarrow> ''undefined'' | Some u \<Rightarrow> u) @ ''.json''"

definition writeLocalSignature :: "upload_env \<Rightarrow> signature \<Rightarrow> state \<Rightarrow> exn + state" where
  "writeLocalSignature env signature s =
     (case writeFile_fails env of
        Some error \<Rightarrow> Inl error
      | None \<Rightarrow> Inr (s\<lparr>localFiles :=
                         AList.update (localFileName signature) (Json signature) (localFiles s)\<rparr>))"

text \<open>
  The first two constants of the \<open>try\<close> block of the handler of \<^verbatim>\<open>/list\<close>: \<open>newName\<close>, the
  name the uploaded file is renamed to in the directory of uploads, and \<open>formData\<close>.
\<close>

definition newName :: "lib \<Rightarrow> upload_env \<Rightarrow> request \<Rightarrow> upload_file \<Rightarrow> string" where
  "newName lib env request f =
     basename lib ((case body_email request of None \<Rightarrow> ''undefined'' | Some e \<Rightarrow> e)
                   @ ''#'' @ date_now env @ extname lib (originalname f))"

definition formDataOf :: "lib \<Rightarrow> upload_env \<Rightarrow> request \<Rightarrow> upload_file \<Rightarrow> formData" where
  "formDataOf lib env request f =
     \<lparr>fileName = newName lib env request f,
      fileOriginalName = basename lib (originalname f),
      signerName = body_name request,
      signerEmail = body_email request,
      signerEmployer = body_employer request,
      signedDate = body_signed request\<rparr>"

text \<open>
  The part of the handler of \<^verbatim>\<open>/list\<close> that takes the upload; its result is
  \<open>uploadStatus\<close> (\<open>None\<close> is \<open>null\<close>) and the new state. Every exception of the \<open>try\<close>
  block ends in the status \<^verbatim>\<open>"ERROR: " + ex.message\<close>; what was done before it stays done.
\<close>

definition postList :: "config \<Rightarrow> lib \<Rightarrow> upload_env \<Rightarrow> request \<Rightarrow> state \<Rightarrow> string option \<times> state" where
  "postList cfg lib env request s =
     (let canUpload = (CLA_FILELOCAL cfg \<noteq> [] \<and> \<not> needsAuthorization (basicUserName request))
      in if canUpload \<and> req_method request = ''POST'' then
           (case req_file request of
              None \<Rightarrow> (Some ''ERROR: CLA file is required.'', s)
            | Some f \<Rightarrow>
               (let formData = formDataOf lib env request f
                in if falsy (signerName formData) then (Some ''ERROR: Name is required.'', s)
                   else if falsy (signerEmail formData) then (Some ''ERROR: E-mail is required.'', s)
                   else if falsy (signedDate formData) then (Some ''ERROR: Signed date is required.'', s)
                   else
                     (case rename_fails env of
                        Some ex \<Rightarrow> (Some (''ERROR: '' @ message ex), s)
                      | None \<Rightarrow>
                         (let s1 = s\<lparr>uploads := uploads s @ [newName lib env request f]\<rparr>
                          in case signatureFromUpload lib env request formData of
                               Inl ex \<Rightarrow> (Some (''ERROR: '' @ message ex), s1)
                             | Inr signature \<Rightarrow>
                                (case writeLocalSignature env signature s1 of
                                   Inl ex \<Rightarrow> (Some (''ERROR: '' @ message ex), s1)
                                 | Inr s2 \<Rightarrow>
                                    (case globalSignees s2 of
                                       None \<Rightarrow>
                                         (Some (''ERROR: '' @ message (TypeError
                                            ''Cannot read properties of null'')), s2)
                                     | Some signees \<Rightarrow>
                                         (Some ''CLA added succesfully.'',
                                          s2\<lparr>globalSignees :=
                                                Some (addLocalSignature signees signature True)\<rparr>)))))))
         else (None, s))"

subsection \<open>globalReload\<close>

text \<open>
  What the outside world answers during one reload: the CLA assistant to the two kinds of
  calls, the clock, the file system to the reads and writes of the file cache and to the
  reads of the local signatures.
\<close>

record reload_env = fs_env +
  getGist_answer :: "exn + gist_response"
  getAll_answer :: "string \<Rightarrow> exn + signature list"
  new_Date :: string
  readCacheFile_gist :: "exn + gist"
  readCacheFile_signees :: "exn + signees"
  writeCacheFile_gist_fails :: "exn option"
  writeCacheFile_signees_fails :: "exn option"

text \<open>
  The \<open>try\<close> block. When it throws, the local variable \<open>gist\<close> is already assigned if
  \<open>getGist\<close> had returned; the error comes with that value.
\<close>

definition tryUpstream :: "lib \<Rightarrow> reload_env \<Rightarrow> exn \<times> gist option + gist \<times> signees" where
  "tryUpstream lib env =
     (case getGist (getGist_answer env) of
        Inl ex \<Rightarrow> Inl (ex, None)
      | Inr gist \<Rightarrow>
          (case getSignees lib (getAll_answer env) (new_Date env) gist of
             Inl ex \<Rightarrow> Inl (ex, Some gist)
           | Inr signees \<Rightarrow> Inr (gist, signees)))"

text \<open>
  The \<open>catch\<close> block up to the assignment of \<open>globalError\<close>: the result is the final
  \<open>ex\<close> (\<open>None\<close> is \<open>null\<close>), the local variables \<open>gist\<close> and \<open>signees\<close>, and \<open>gotCached\<close>.
\<close>

definition tryFileCache ::
  "config \<Rightarrow> reload_env \<Rightarrow> bool \<Rightarrow> exn \<Rightarrow> gist option
     \<Rightarrow> exn option \<times> gist option \<times> signees option \<times> bool" where
  "tryFileCache cfg env disableCache ex gist =
     (if CLA_FILECACHE cfg \<noteq> [] \<and> \<not> disableCache then
        (case readCacheFile_gist env of
           Inl exfs \<Rightarrow>
             (Some (new_AggregateError (ArgStr ''Both CLA and file cache failed.'')
                      (ArgErrs [ex, exfs])), gist, None, False)
         | Inr cachedGist \<Rightarrow>
             (case readCacheFile_signees env of
                Inl exfs \<Rightarrow>
                  (Some (new_AggregateError (ArgStr ''Both CLA and file cache failed.'')
                           (ArgErrs [ex, exfs])), Some cachedGist, None, False)
              | Inr cachedSignees \<Rightarrow> (None, Some cachedGist, Some cachedSignees, True)))
      else (Some ex, gist, None, False))"

text \<open>
  Saving to the file cache; a failure is logged and nothing else. (The replacer of
  \<open>writeCacheFile\<close> also stores the property \<open>__map\<close> on the map it writes; the typed
  signee map here leaves that property out, see the section on the file cache.)
\<close>

definition saveFileCache ::
  "config \<Rightarrow> reload_env \<Rightarrow> bool \<Rightarrow> gist option \<Rightarrow> signees option \<Rightarrow> state \<Rightarrow> state" where
  "saveFileCache cfg env gotCached gist signees s =
     (if \<not> gotCached \<and> CLA_FILECACHE cfg \<noteq> [] \<and> gist \<noteq> None \<and> signees \<noteq> None then
        (case writeCacheFile_gist_fails env of
           Some ex \<Rightarrow> s
         | None \<Rightarrow>
             (case writeCacheFile_signees_fails env of
                Some ex \<Rightarrow> s\<lparr>cacheFileGist := gist\<rparr>
              | None \<Rightarrow> s\<lparr>cacheFileGist := gist, cacheFileSignees := signees\<rparr>))
      else s)"

text \<open>
  The promise of \<open>getLocalSignatures\<close> is made at the start of \<open>globalReload\<close> and gets its
  handler only where it is awaited, after the calls to the CLA assistant and the reads and
  writes of the file cache have been awaited. The listing of the local directory has
  settled by then, so when it fails the promise is rejected with no handler attached:
  an unhandled rejection. It is one as well when the reload throws, since the promise is
  then never awaited.
\<close>

definition unhandled :: "(exn + 'a) option \<Rightarrow> state \<Rightarrow> state" where
  "unhandled localPromise s =
     (case localPromise of
        Some (Inl exlo) \<Rightarrow> s\<lparr>unhandledRejection := Some exlo\<rparr>
      | _ \<Rightarrow> s)"

text \<open>
  The loop over the local signatures, on a signee map that is not \<open>null\<close>. For a
  signature that is \<open>null\<close> the property access \<^verbatim>\<open>signature.user\<close> in \<open>addLocalSignature\<close>
  throws; the \<open>catch\<close> around the loop logs the error, and the signatures after it are
  not added. What was added before stays.
\<close>

fun mergeLoop :: "signees \<Rightarrow> signature option list \<Rightarrow> signees" where
  "mergeLoop signees [] = signees"
| "mergeLoop signees (None # signatures) = signees"
| "mergeLoop signees (Some signature # signatures) =
     mergeLoop (addLocalSignature signees signature True) signatures"

text \<open>
  Merging the local signatures. With \<open>signees\<close> being \<open>null\<close> the first call of
  \<open>addLocalSignature\<close> throws, the \<open>catch\<close> logs it, and \<open>signees\<close> stays \<open>null\<close>. The same
  \<open>catch\<close> takes the rejection of the promise in a process that is kept running.
\<close>

definition mergeLocalSignatures ::
  "(exn + signature option list \<times> string list) option \<Rightarrow> signees option \<Rightarrow> signees option" where
  "mergeLocalSignatures localPromise signees =
     (case localPromise of
        None \<Rightarrow> signees
      | Some (Inl exlo) \<Rightarrow> signees
      | Some (Inr (signatures, warned)) \<Rightarrow>
          (case signees of
             None \<Rightarrow> None
           | Some m \<Rightarrow> Some (mergeLoop m signatures)))"

definition finishReload ::
  "config \<Rightarrow> reload_env \<Rightarrow> (exn + signature option list \<times> string list) option
     \<Rightarrow> bool \<Rightarrow> gist option \<Rightarrow> signees option \<Rightarrow> state \<Rightarrow> state" where
  "finishReload cfg env localPromise gotCached gist signees s =
     (saveFileCache cfg env gotCached gist signees s)
       \<lparr>globalGist := gist, globalSignees := mergeLocalSignatures localPromise signees\<rparr>"

definition globalReload ::
  "config \<Rightarrow> lib \<Rightarrow> reload_env \<Rightarrow> bool \<Rightarrow> bool \<Rightarrow> state \<Rightarrow> (exn + unit) \<times> state" where
  "globalReload cfg lib env ignoreErrors disableCache s0 =
     (let localPromise = (if CLA_FILELOCAL cfg \<noteq> []
                          then Some (getLocalSignatures cfg env (localFiles s0)) else None);
          s = unhandled localPromise s0
      in case tryUpstream lib env of
           Inr (gist, signees) \<Rightarrow>
             (Inr (), finishReload cfg env localPromise False (Some gist) (Some signees)
                        (s\<lparr>globalError := None\<rparr>))
         | Inl (ex0, gist0) \<Rightarrow>
             (case tryFileCache cfg env disableCache ex0 gist0 of
                (ex, gist, signees, gotCached) \<Rightarrow>
                  (case ex of
                     Some error \<Rightarrow>
                       if \<not> ignoreErrors then (Inl error, s\<lparr>globalError := Some error\<rparr>)
                       else (Inr (), finishReload cfg env localPromise gotCached gist signees
                                       (s\<lparr>globalError := Some error\<rparr>))
                   | None \<Rightarrow>
                       (Inr (), finishReload cfg env localPromise gotCached gist signees
                                  (s\<lparr>globalError := None\<rparr>)))))"

subsection \<open>The calls the service takes\<close>

text \<open>
  An upload with what the outside world answers during it and its request, or a reload
  with its answers and its two flags. The calls are taken one at a time.
\<close>

datatype event = Upload upload_env request | Reload reload_env bool bool

fun step :: "config \<Rightarrow> lib \<Rightarrow> state \<Rightarrow> event \<Rightarrow> state" where
  "step cfg lib s (Upload env request) = snd (postList cfg lib env request s)"
| "step cfg lib s (Reload env ignoreErrors disableCache) =
     snd (globalReload cfg lib env ignoreErrors disableCache s)"

definition run :: "config \<Rightarrow> lib \<Rightarrow> event list \<Rightarrow> state \<Rightarrow> state" where
  "run cfg lib events s = foldl (step cfg lib) s events"

subsection \<open>The file cache: writeCacheFile and readCacheFile\<close>

text \<open>
  The values the file cache is given: primitives, arrays, plain objects (their own
  enumerable properties in order), \<open>Map\<close> objects (their entries in insertion order and
  their own properties, such as \<open>timestamp\<close>) and \<open>Date\<close> objects. A date is kept as the
  string its \<open>toJSON\<close> returns, \<open>None\<close> for the invalid date, together with its own
  properties. Numbers are integers here.
\<close>

datatype jsval =
    VUndefined | VNull | VBool bool | VNum int | VStr string
  | VArr "jsval list"
  | VObj "(string \<times> jsval) list"
  | VMap "(jsval \<times> jsval) list" "(string \<times> jsval) list"
  | VDate "string option" "(string \<times> jsval) list"

text \<open>
  The document a cache file holds. The text of the file is left out: the model writes
  and reads the tree that \<^verbatim>\<open>JSON.stringify\<close> prints and \<^verbatim>\<open>JSON.parse\<close> parses.
\<close>

datatype json =
    JNull | JBool bool | JNum int | JStr string
  | JArr "json list"
  | JObj "(string \<times> json) list"

definition orNull :: "json option \<Rightarrow> json" where
  "orNull j = (case j of None \<Rightarrow> JNull | Some x \<Rightarrow> x)"

definition member :: "string \<Rightarrow> json option \<Rightarrow> (string \<times> json) list" where
  "member k j = (case j of None \<Rightarrow> [] | Some x \<Rightarrow> [(k, x)])"

fun toJSON :: "string option \<Rightarrow> json" where
  "toJSON None = JNull"
| "toJSON (Some t) = JStr t"

text \<open>
  \<^verbatim>\<open>JSON.stringify(data, replacer)\<close> with the replacer of \<open>writeCacheFile\<close>. \<open>None\<close> is the
  result \<open>undefined\<close>: such a property is left out of an object and printed as \<open>null\<close>
  in an array. For a \<open>Map\<close> the replacer stores the array of the entries in the property
  \<open>__map\<close> of the map itself and returns the map, which is then printed as the object of
  its own properties. For a \<open>Date\<close> the replacer returns the object
  \<^verbatim>\<open>{ __date: this[key].toJSON() }\<close>.
\<close>

fun stringify :: "jsval \<Rightarrow> json option" where
  "stringify VUndefined = None"
| "stringify VNull = Some JNull"
| "stringify (VBool b) = Some (JBool b)"
| "stringify (VNum n) = Some (JNum n)"
| "stringify (VStr s) = Some (JStr s)"
| "stringify (VArr xs) = Some (JArr (map (\<lambda>x. orNull (stringify x)) xs))"
| "stringify (VObj ps) = Some (JObj (concat (map (\<lambda>(k, v). member k (stringify v)) ps)))"
| "stringify (VMap es ps) =
     (let entriesJson = JArr (map (\<lambda>(k, v). JArr [orNull (stringify k), orNull (stringify v)]) es)
      in Some (JObj (concat (map (\<lambda>(k, v). if k = ''__map'' then [(k, entriesJson)]
                                            else member k (stringify v)) ps)
                     @ (if ''__map'' \<in> fst ` set ps then [] else [(''__map'', entriesJson)]))))"
| "stringify (VDate t ps) = Some (JObj [(''__date'', toJSON t)])"


text \<open>
  The replacer assigns \<open>__map\<close> on the very map it is given: \<open>afterWrite data\<close> is the
  data as it is once \<open>writeCacheFile\<close> has run. The properties of a date are not visited.
\<close>

fun afterWrite :: "jsval \<Rightarrow> jsval" where
  "afterWrite (VArr xs) = VArr (map afterWrite xs)"
| "afterWrite (VObj ps) = VObj (map (\<lambda>(k, v). (k, afterWrite v)) ps)"
| "afterWrite (VMap es ps) =
     (let es' = map (\<lambda>(k, v). (afterWrite k, afterWrite v)) es;
          entriesArray = VArr (map (\<lambda>(k, v). VArr [k, v]) es')
      in VMap es' (map (\<lambda>(k, v). if k = ''__map'' then (k, entriesArray) else (k, afterWrite v)) ps
                   @ (if ''__map'' \<in> fst ` set ps then [] else [(''__map'', entriesArray)])))"
| "afterWrite v = v"

text \<open>
  The reviver of \<open>readCacheFile\<close>. \<open>getProp value k\<close> is \<^verbatim>\<open>value[k]\<close> for a property name
  \<open>k\<close> that no prototype defines; \<open>new_Map\<close> is the \<open>Map\<close> constructor, which throws
  unless its argument yields entry objects; \<open>newDate\<close> is the \<open>Date\<close> constructor on a
  string in the format of \<open>toJSON\<close> (for any other argument the model takes the invalid
  date). \<^verbatim>\<open>Object.assign\<close> copies the own properties of the parsed object, the tag
  included, onto the new map or date.
\<close>

fun truthy :: "jsval \<Rightarrow> bool" where
  "truthy VUndefined = False"
| "truthy VNull = False"
| "truthy (VBool b) = b"
| "truthy (VNum n) = (n \<noteq> 0)"
| "truthy (VStr s) = (s \<noteq> [])"
| "truthy v = True"

definition lookupProp :: "(string \<times> jsval) list \<Rightarrow> string \<Rightarrow> jsval" where
  "lookupProp ps k = (case map_of ps k of None \<Rightarrow> VUndefined | Some v \<Rightarrow> v)"

fun getProp :: "jsval \<Rightarrow> string \<Rightarrow> jsval" where
  "getProp (VObj ps) k = lookupProp ps k"
| "getProp (VMap es ps) k = lookupProp ps k"
| "getProp (VDate t ps) k = lookupProp ps k"
| "getProp v k = VUndefined"

fun ownProps :: "jsval \<Rightarrow> (string \<times> jsval) list" where
  "ownProps (VObj ps) = ps"
| "ownProps (VMap es ps) = ps"
| "ownProps (VDate t ps) = ps"
| "ownProps v = []"

fun isObject :: "jsval \<Rightarrow> bool" where
  "isObject (VArr xs) = True"
| "isObject (VObj ps) = True"
| "isObject (VMap es ps) = True"
| "isObject (VDate t ps) = True"
| "isObject v = False"

fun entryOf :: "jsval \<Rightarrow> exn + jsval \<times> jsval" where
  "entryOf (VArr xs) =
     Inr (if 0 < length xs then xs ! 0 else VUndefined, if 1 < length xs then xs ! 1 else VUndefined)"
| "entryOf v =
     (if isObject v then Inr (getProp v ''0'', getProp v ''1'')
      else Inl (TypeError ''Iterator value is not an entry object''))"

definition mapSet :: "(jsval \<times> jsval) list \<Rightarrow> jsval \<times> jsval \<Rightarrow> (jsval \<times> jsval) list" where
  "mapSet es e =
     (if \<not> isObject (fst e) \<and> fst e \<in> fst ` set es then AList.update (fst e) (snd e) es
      else es @ [e])"

fun new_Map :: "jsval \<Rightarrow> exn + (jsval \<times> jsval) list" where
  "new_Map (VArr items) =
     (case sequence (map entryOf items) of
        Inl ex \<Rightarrow> Inl ex
      | Inr es \<Rightarrow> Inr (foldl mapSet [] es))"
| "new_Map (VMap es ps) = Inr es"
| "new_Map (VStr s) = Inl (TypeError ''Iterator value is not an entry object'')"
| "new_Map v = Inl (TypeError ''object is not iterable'')"

fun newDate :: "jsval \<Rightarrow> string option" where
  "newDate (VStr s) = Some s"
| "newDate (VDate t ps) = t"
| "newDate v = None"

definition reviver :: "jsval \<Rightarrow> exn + jsval" where
  "reviver value =
     (if truthy value then
        (if truthy (getProp value ''__map'') then
           (case new_Map (getProp value ''__map'') of
              Inl ex \<Rightarrow> Inl ex
            | Inr es \<Rightarrow> Inr (VMap es (ownProps value)))
         else if truthy (getProp value ''__date'') then
           Inr (VDate (newDate (getProp value ''__date'')) (ownProps value))
         else Inr value)
      else Inr VUndefined)"

text \<open>
  \<^verbatim>\<open>JSON.parse(text, reviver)\<close>: the reviver is applied bottom-up; a property for which it
  returns \<open>undefined\<close> is deleted from its object, and an array element becomes a hole
  (read as \<open>undefined\<close>).
\<close>

fun internalize :: "json \<Rightarrow> exn + jsval" where
  "internalize JNull = reviver VNull"
| "internalize (JBool b) = reviver (VBool b)"
| "internalize (JNum n) = reviver (VNum n)"
| "internalize (JStr s) = reviver (VStr s)"
| "internalize (JArr xs) =
     (case sequence (map internalize xs) of
        Inl ex \<Rightarrow> Inl ex
      | Inr ys \<Rightarrow> reviver (VArr ys))"
| "internalize (JObj ps) =
     (case sequence (map (\<lambda>(k, j). case internalize j of Inl ex \<Rightarrow> Inl ex | Inr v \<Rightarrow> Inr (k, v)) ps) of
        Inl ex \<Rightarrow> Inl ex
      | Inr qs \<Rightarrow> reviver (VObj (filter (\<lambda>(k, v). v \<noteq> VUndefined) qs)))"

text \<open>
  \<open>writeCacheFile\<close> yields the document written to the file; \<open>readCacheFile\<close> takes what
  reading and parsing the file gave.
\<close>

definition writeCacheFile :: "exn option \<Rightarrow> jsval \<Rightarrow> exn + json" where
  "writeCacheFile fails data =
     (case stringify data of
        None \<Rightarrow> Inl (TypeError ''The data argument must be of type string'')
      | Some dataJson \<Rightarrow>
          (case fails of Some ex \<Rightarrow> Inl ex | None \<Rightarrow> Inr dataJson))"

definition readCacheFile :: "exn + json \<Rightarrow> exn + jsval" where
  "readCacheFile dataJson = (case dataJson of Inl ex \<Rightarrow> Inl ex | Inr j \<Rightarrow> internalize j)"

subsection \<open>Lookup by custom fields\<close>

text \<open>
  Modelled from the spec: the values under which a signature is also indexed when a list
  of lookup field names is configured (the README's \<open>CLA_LOOKUP_FIELDS\<close>; the code that
  reads it is not part of \<^verbatim>\<open>server.mjs\<close> as given). They are the values of the named
  custom fields that the signature carries.
\<close>

definition lookupValues :: "string list \<Rightarrow> signature \<Rightarrow> string list" where
  "lookupValues lookupFields signature =
     (case custom_fields signature of
        Some (Parsed parsed) \<Rightarrow> List.map_filter (map_of parsed) lookupFields
      | _ \<Rightarrow> [])"

text \<open>
  Modelled from the spec: a lookup key resolves to a subject identifier when it is that
  identifier, or when it is a lookup value of one of the subject's signatures.
\<close>

definition resolves :: "string list \<Rightarrow> signature list \<Rightarrow> string \<Rightarrow> string \<Rightarrow> bool" where
  "resolves lookupFields signatures key subject =
     (subject = key \<or>
      (\<exists>signature \<in> set signatures.
         user signature = subject \<and> key \<in> set (lookupValues lookupFields signature)))"

text \<open>
  Modelled from the spec: the builder with an alternate-lookup configuration. The
  signatures are grouped by user as \<open>getSignees\<close> does; the map then has one entry for
  every user and for every lookup value, holding the sorted concatenation of the lists of
  all subjects the key resolves to.
\<close>

definition buildSigneesLookup :: "string list \<Rightarrow> string \<Rightarrow> signature list list \<Rightarrow> signees" where
  "buildSigneesLookup lookupFields now values =
     (let signatures = concat values;
          byUser = foldl pushSignature [] signatures;
          keys = remdups (map fst byUser @ concat (map (lookupValues lookupFields) signatures))
      in \<lparr>entries =
            map (\<lambda>key. (key, js_sort signatureComparer
                               (concat (map snd (filter (\<lambda>(u, signee).
                                   resolves lookupFields signatures key u) byUser))))) keys,
          timestamp = now\<rparr>)"

subsection \<open>Notions used in the statements\<close>

text \<open>
  The key of \<open>a\<close> is smaller than the key of \<open>b\<close>: the lexicographic comparison of
  \<open>(created_at, gist_committed_at, updated_at)\<close> with JavaScript's \<^verbatim>\<open><\<close> and equality.
\<close>

definition keyLess :: "signature \<Rightarrow> signature \<Rightarrow> bool" where
  "keyLess a b =
     (created_at a < created_at b
      \<or> (created_at a = created_at b
          \<and> (js_lt (gist_committed_at a) (gist_committed_at b)
               \<or> (gist_committed_at a = gist_committed_at b \<and> updated_at a < updated_at b))))"

text \<open>No signature of the list is followed by one with a greater key.\<close>

definition sortedDescending :: "signature list \<Rightarrow> bool" where
  "sortedDescending signatures = sorted_wrt (\<lambda>a b. \<not> keyLess a b) signatures"

text \<open>All signatures of the list have \<open>gist_committed_at\<close>, or none has.\<close>

definition uniformVersions :: "signature list \<Rightarrow> bool" where
  "uniformVersions signatures =
     (list_all (\<lambda>a. gist_committed_at a \<noteq> None) signatures
      \<or> list_all (\<lambda>a. gist_committed_at a = None) signatures)"

text \<open>The key as a triple of strings, for lists with uniform versions.\<close>

definition signatureKey :: "signature \<Rightarrow> string \<times> string \<times> string" where
  "signatureKey a =
     (created_at a, (case gist_committed_at a of None \<Rightarrow> [] | Some g \<Rightarrow> g), updated_at a)"

text \<open>A signature is in the list the map holds for its user.\<close>

definition hasSignature :: "signees \<Rightarrow> signature \<Rightarrow> bool" where
  "hasSignature m signature =
     (case map_of (entries m) (user signature) of
        None \<Rightarrow> False
      | Some signatures \<Rightarrow> signature \<in> set signatures)"




text \<open>A file of the local directory can be read during the call and its text is JSON.\<close>

definition readable :: "'x fs_env_scheme \<Rightarrow> string \<times> local_file \<Rightarrow> bool" where
  "readable env entry =
     (case entry of (name, content) \<Rightarrow>
        readFile_fails env name = None \<and> \<not> isl (parseFile content))"



subsection \<open>Concrete inputs\<close>

definition ex_lib :: lib where
  "ex_lib =
     \<lparr>JSON_parse = (\<lambda>s. if s = ''{}'' then Some [] else None),
      basename = (\<lambda>p. p),
      extname = (\<lambda>p. ''.pdf''),
      encodeURIComponent = (\<lambda>p. concat (map (\<lambda>c. if c = CHR ''#'' then ''%23'' else [c]) p)),
      toISOString = (\<lambda>d. if d = ''2024-05-01'' then Inr ''2024-05-01T00:00:00.000Z''
                          else Inl (Exn ''RangeError'' ''Invalid time value'' None)),
      trim = (\<lambda>p. p),
      toLowerCase = (\<lambda>p. p)\<rparr>"

definition ex_config :: config where
  "ex_config = \<lparr>CLA_FILELOCAL = ''local'', CLA_FILECACHE = ''cache''\<rparr>"

definition ex_gist_response :: gist_response where
  "ex_gist_response =
     \<lparr>html_url = ''https://gist.github.com/org/cla'',
      files = [''metadata'', ''CLA.md''],
      history = [\<lparr>h_version = ''v1'', h_committed_at = ''2024-01-15T09:00:00Z'',
                  h_url = ''https://api.github.com/gists/cla/v1''\<rparr>]\<rparr>"

definition ex_gist :: gist where
  "ex_gist =
     \<lparr>url = ''https://gist.github.com/org/cla'',
      filename = Some ''CLA.md'',
      versions = [\<lparr>version = ''v1'', committed = ''2024-01-15T09:00:00Z'',
                   version_url = ''https://api.github.com/gists/cla/v1''\<rparr>]\<rparr>"

text \<open>The signature of \<open>alice\<close> as the CLA assistant answers it, and as \<open>getSignatures\<close> completes it.\<close>

definition ex_raw :: signature where
  "ex_raw =
     \<lparr>sig_id = ''a1'', user = ''alice'',
      created_at = ''2024-05-01T00:00:00.000Z'', updated_at = ''2024-05-01T00:00:00.000Z'',
      revoked_at = None, gist_url = Some ''https://gist.github.com/org/cla'',
      gist_version = Some ''v1'', gist_committed_at = None, gist_filename = None,
      custom_fields = Some (Unparsed ''{}''), origin = None\<rparr>"

definition ex_upstream :: signature where
  "ex_upstream =
     ex_raw\<lparr>gist_committed_at := Some ''2024-01-15T09:00:00Z'', gist_filename := Some ''CLA.md'',
            custom_fields := Some (Parsed [])\<rparr>"

text \<open>
  Two local signatures of the same user, signed on the day of the upstream one; the first
  was uploaded on 3 June, the second on 2 June.
\<close>

definition ex_local :: "string \<Rightarrow> string \<Rightarrow> string \<Rightarrow> signature" where
  "ex_local uniqueId dateNow now =
     \<lparr>sig_id = uniqueId, user = ''alice'',
      created_at = ''2024-05-01T00:00:00.000Z'', updated_at = now,
      revoked_at = None, gist_url = Some (''alice%23'' @ dateNow @ ''.pdf''),
      gist_version = None, gist_committed_at = None, gist_filename = Some ''scan.pdf'',
      custom_fields = Some (Parsed
        [(''name'', ''Alice''), (''email'', ''alice''), (''employer'', ''none''),
         (''category'', ''(b) I am contributing as an individual because I am self-employed or unemployed. I have read and agree to the CLA.'')]),
      origin = Some ''local|admin''\<rparr>"

definition ex_newer :: signature where
  "ex_newer = ex_local ''Uakgb_J5m9g-0JDMbcJqL'' ''1717400000000'' ''2024-06-03T07:33:20.000Z''"

definition ex_older :: signature where
  "ex_older = ex_local ''V1StGXR8_Z5jdHi6B-myT'' ''1717300000000'' ''2024-06-02T03:46:40.000Z''"

definition ex_signees :: signees where
  "ex_signees = \<lparr>entries = [(''alice'', [ex_upstream])], timestamp = ''2024-06-01T12:00:00.000Z''\<rparr>"

definition ex_state :: state where
  "ex_state =
     \<lparr>globalError = None, globalGist = Some ex_gist, globalSignees = Some ex_signees,
      cacheFileGist = None, cacheFileSignees = None,
      localFiles = [(''alice%231717400000000.pdf.json'', Json ex_newer),
                    (''alice%231717300000000.pdf.json'', Json ex_older)],
      uploads = [''alice#1717400000000.pdf'', ''alice#1717300000000.pdf''],
      unhandledRejection = None\<rparr>"

text \<open>The service as it starts: nothing is published yet, the local files are there.\<close>

definition ex_startup :: state where
  "ex_startup = ex_state\<lparr>globalGist := None, globalSignees := None\<rparr>"

text \<open>The CLA assistant answers; the file cache does not exist yet.\<close>

definition ex_up :: reload_env where
  "ex_up =
     \<lparr>readdir_fails = None,
      readFile_fails = (\<lambda>f. None),
      getGist_answer = Inr ex_gist_response,
      getAll_answer = (\<lambda>v. if v = ''v1'' then Inr [ex_raw] else Inr []),
      new_Date = ''2024-06-04T12:00:00.000Z'',
      readCacheFile_gist = Inl (Exn ''Error'' ''ENOENT: no such file or directory'' None),
      readCacheFile_signees = Inl (Exn ''Error'' ''ENOENT: no such file or directory'' None),
      writeCacheFile_gist_fails = None,
      writeCacheFile_signees_fails = None\<rparr>"

text \<open>The CLA assistant times out and the file cache does not exist.\<close>

definition ex_down :: reload_env where
  "ex_down = ex_up\<lparr>getGist_answer := Inl (Exn ''AxiosError'' ''timeout of 30000ms exceeded'' None)\<rparr>"

text \<open>The CLA assistant times out and the file cache holds an earlier answer.\<close>

definition ex_cached :: reload_env where
  "ex_cached = ex_down\<lparr>readCacheFile_gist := Inr ex_gist, readCacheFile_signees := Inr ex_signees\<rparr>"

text \<open>
  The same, and the directory of local signatures cannot be listed during the call.
\<close>

definition ex_unlisted :: reload_env where
  "ex_unlisted =
     ex_cached\<lparr>readdir_fails :=
                 Some (Exn ''Error'' ''EACCES: permission denied, scandir local/signatures'' None)\<rparr>"

text \<open>The service as it starts, with a first file in the local directory that holds \<open>null\<close>.\<close>

definition ex_null_first :: state where
  "ex_null_first = ex_startup\<lparr>localFiles := (''a-draft.json'', JsonNull) # localFiles ex_startup\<rparr>"

text \<open>The CLA assistant answers a gist whose history is empty.\<close>

definition ex_no_history :: reload_env where
  "ex_no_history = ex_up\<lparr>getGist_answer := Inr (ex_gist_response\<lparr>history := []\<rparr>)\<rparr>"

text \<open>
  A signee map as \<open>getSignees\<close> builds it, as a value for the file cache: one user with
  one signature, whose custom field \<open>company\<close> was left empty.
\<close>

definition ex_cache_signature :: "(string \<times> jsval) list \<Rightarrow> jsval" where
  "ex_cache_signature customFields =
     VObj [(''_id'', VStr ''a1''), (''user'', VStr ''alice''),
           (''created_at'', VStr ''2024-05-01T00:00:00.000Z''),
           (''custom_fields'', VObj customFields)]"

definition ex_cache_signees :: jsval where
  "ex_cache_signees =
     VMap [(VStr ''alice'',
            VArr [ex_cache_signature [(''name'', VStr ''Alice''), (''company'', VStr [])]])]
          [(''timestamp'', VDate (Some ''2024-06-04T12:00:00.000Z'') [])]"














text \<open>
  A directory of local signatures with a file that is not JSON and a file that cannot be
  read during the call.
\<close>

definition ex_dir :: "(string \<times> local_file) list" where
  "ex_dir = [(''alice%231717400000000.pdf.json'', Json ex_newer),
             (''notes.json'', NotJson ''to do''),
             (''alice%231717300000000.pdf.json'', Json ex_older)]"

definition ex_fs :: fs_env where
  "ex_fs =
     \<lparr>readdir_fails = None,
      readFile_fails = (\<lambda>f. if f = ''alice%231717300000000.pdf.json''
                            then Some (Exn ''Error'' ''EACCES: permission denied'' None) else None)\<rparr>"

text \<open>Two subjects whose signatures carry the same value of the custom field \<open>internalId\<close>.\<close>

definition ex_member :: "string \<Rightarrow> string \<Rightarrow> (string \<times> string) list \<Rightarrow> signature" where
  "ex_member uniqueId subject customFields =
     ex_upstream\<lparr>sig_id := uniqueId, user := subject, custom_fields := Some (Parsed customFields)\<rparr>"

definition ex_values :: "signature list list" where
  "ex_values =
     [[ex_member ''a1'' ''alice'' [(''internalId'', ''42'')], ex_member ''b1'' ''bob'' []],
      [ex_member ''a2'' ''alice'' [], ex_member ''k1'' ''a.k.a'' [(''internalId'', ''42'')]]]"

section \<open>Properties\<close>

subsection \<open>The sort returns a permutation\<close>

lemma bsearch_le: "left \<le> right \<Longrightarrow> bsearch cmp pivot a left right \<le> right"
  by (induction cmp pivot a left right rule: bsearch.induct)
     (subst bsearch.simps, auto simp: Let_def)

lemma mset_binaryInsertionSort: "mset (binaryInsertionSort cmp pre rest) = mset pre + mset rest"
proof (induction rest arbitrary: pre)
  case Nil
  then show ?case by simp
next
  case (Cons pivot rest)
  have "mset (take k pre @ pivot # drop k pre) = add_mset pivot (mset pre)" for k
    by (metis append_take_drop_id mset.simps(2) mset_append union_mset_add_mset_right)
  with Cons show ?case by (simp add: Let_def)
qed

lemma mset_countAndMakeRun: "mset (snd (countAndMakeRun cmp xs)) = mset xs"
proof (cases "(cmp, xs)" rule: countAndMakeRun.cases)
  case (1 cmp' h l rest)
  have "mset (rev (take n ys) @ drop n ys) = mset ys" for n and ys :: "'a list"
    by (metis append_take_drop_id mset_append mset_rev)
  with 1 show ?thesis by (simp add: Let_def del: take_Suc_Cons drop_Suc_Cons)
qed auto

lemma mset_js_sort: "mset (js_sort cmp xs) = mset xs"
proof -
  have "mset (take n ys) + mset (drop n ys) = mset ys" for n and ys :: "'a list"
    by (metis append_take_drop_id mset_append)
  then show ?thesis
    using mset_countAndMakeRun [of cmp xs]
    by (auto simp: js_sort_def mset_binaryInsertionSort split: prod.splits)
qed

lemma length_js_sort [simp]: "length (js_sort cmp xs) = length xs"
  by (metis mset_js_sort size_mset)

lemma set_js_sort [simp]: "set (js_sort cmp xs) = set xs"
  by (metis mset_js_sort set_mset_mset)

lemma js_sort_Nil_iff [simp]: "js_sort cmp xs = [] \<longleftrightarrow> xs = []"
  by (metis length_js_sort length_0_conv)

subsection \<open>The sort sorts when the comparator is consistent\<close>

text \<open>
  When the comparator orders the elements as a key into a linear order does (negative
  exactly when the first key is the greater one), the result of \<open>js_sort\<close> is in
  descending order of the key.
\<close>

lemma bsearch_bounds:
  fixes key :: "'a \<Rightarrow> 'k::linorder"
  assumes "sorted_wrt (\<lambda>x y. key y \<le> key x) a"
      and "\<And>x. x \<in> set a \<Longrightarrow> (cmp pivot x < 0) = (key x < key pivot)"
      and "left \<le> right" and "right \<le> length a"
      and "\<forall>i<left. key pivot \<le> key (a ! i)"
      and "\<forall>i. right \<le> i \<and> i < length a \<longrightarrow> key (a ! i) < key pivot"
  shows "bsearch cmp pivot a left right \<le> length a
         \<and> (\<forall>i<bsearch cmp pivot a left right. key pivot \<le> key (a ! i))
         \<and> (\<forall>i. bsearch cmp pivot a left right \<le> i \<and> i < length a \<longrightarrow> key (a ! i) < key pivot)"
  using assms
proof (induction cmp pivot a left right rule: bsearch.induct)
  case (1 cmp pivot a left right)
  show ?case
  proof (cases "left < right")
    case False
    then have "bsearch cmp pivot a left right = left"
      by (subst bsearch.simps) simp
    moreover have "left = right" using False "1.prems"(3) by simp
    ultimately show ?thesis using "1.prems" by simp
  next
    case True
    define mid where "mid = left + (right - left) div 2"
    have m: "left \<le> mid" "mid < right" "mid < length a"
      using True "1.prems"(4) by (auto simp: mid_def)
    then have in_a: "a ! mid \<in> set a" by simp
    note srt = "1.prems"(1) [unfolded sorted_wrt_iff_nth_less]
    show ?thesis
    proof (cases "cmp pivot (a ! mid) < 0")
      case lt: True
      then have k: "key (a ! mid) < key pivot"
        using "1.prems"(2) [OF in_a] by simp
      have hi: "\<forall>i. mid \<le> i \<and> i < length a \<longrightarrow> key (a ! i) < key pivot"
      proof (intro allI impI)
        fix i assume i: "mid \<le> i \<and> i < length a"
        show "key (a ! i) < key pivot"
        proof (cases "i = mid")
          case True then show ?thesis using k by simp
        next
          case False
          then have "mid < i" using i by simp
          then have "key (a ! i) \<le> key (a ! mid)" using srt i by blast
          then show ?thesis using k by simp
        qed
      qed
      have e: "bsearch cmp pivot a left right = bsearch cmp pivot a left mid"
        using True lt unfolding mid_def by (subst bsearch.simps) (simp add: Let_def)
      show ?thesis
        unfolding e
        using "1.IH"(1) [OF True mid_def lt "1.prems"(1) "1.prems"(2) m(1) _ "1.prems"(5) hi] m
        by simp
    next
      case ge: False
      then have k: "key pivot \<le> key (a ! mid)"
        using "1.prems"(2) [OF in_a] by simp
      have lo: "\<forall>i<mid + 1. key pivot \<le> key (a ! i)"
      proof (intro allI impI)
        fix i assume i: "i < mid + 1"
        show "key pivot \<le> key (a ! i)"
        proof (cases "i = mid")
          case True then show ?thesis using k by simp
        next
          case False
          then have "i < mid" using i by simp
          then have "key (a ! mid) \<le> key (a ! i)" using srt m(3) by blast
          then show ?thesis using k by simp
        qed
      qed
      have e: "bsearch cmp pivot a left right = bsearch cmp pivot a (mid + 1) right"
        using True ge unfolding mid_def by (subst bsearch.simps) (simp add: Let_def)
      show ?thesis
        unfolding e
        using "1.IH"(2) [OF True mid_def ge "1.prems"(1) "1.prems"(2) _ "1.prems"(4) lo "1.prems"(6)] m
        by simp
    qed
  qed
qed

lemma sorted_wrt_insert_at:
  assumes "sorted_wrt P a" and "r \<le> length a"
      and "\<forall>i<r. P (a ! i) p"
      and "\<forall>i. r \<le> i \<and> i < length a \<longrightarrow> P p (a ! i)"
  shows "sorted_wrt P (take r a @ p # drop r a)"
proof -
  have "sorted_wrt P (take r a @ drop r a)"
    using assms(1) by simp
  from this [unfolded sorted_wrt_append]
  have s: "sorted_wrt P (take r a)" "sorted_wrt P (drop r a)"
    "\<forall>x\<in>set (take r a). \<forall>y\<in>set (drop r a). P x y"
    by blast+
  have b: "\<forall>x\<in>set (take r a). P x p"
    using assms(2,3) by (auto simp: in_set_conv_nth)
  have c: "\<forall>y\<in>set (drop r a). P p y"
    using assms(2,4) by (auto simp: in_set_conv_nth)
  show ?thesis
    using s b c by (simp add: sorted_wrt_append)
qed

lemma sorted_binaryInsertionSort:
  fixes key :: "'a \<Rightarrow> 'k::linorder"
  assumes "sorted_wrt (\<lambda>x y. key y \<le> key x) pre"
      and "\<And>x y. x \<in> set pre \<union> set rest \<Longrightarrow> y \<in> set pre \<union> set rest
             \<Longrightarrow> (cmp x y < 0) = (key y < key x)"
  shows "sorted_wrt (\<lambda>x y. key y \<le> key x) (binaryInsertionSort cmp pre rest)"
  using assms
proof (induction rest arbitrary: pre)
  case Nil
  then show ?case by simp
next
  case (Cons pivot rest)
  let ?r = "bsearch cmp pivot pre 0 (length pre)"
  have b: "?r \<le> length pre
         \<and> (\<forall>i<?r. key pivot \<le> key (pre ! i))
         \<and> (\<forall>i. ?r \<le> i \<and> i < length pre \<longrightarrow> key (pre ! i) < key pivot)"
  proof (rule bsearch_bounds [OF Cons.prems(1)])
    show "(cmp pivot x < 0) = (key x < key pivot)" if "x \<in> set pre" for x
      using that Cons.prems(2) [of pivot x] by simp
  qed auto
  have s: "sorted_wrt (\<lambda>x y. key y \<le> key x) (take ?r pre @ pivot # drop ?r pre)"
    by (rule sorted_wrt_insert_at [OF Cons.prems(1)]) (use b in \<open>auto simp: less_imp_le\<close>)
  have "set (take ?r pre @ pivot # drop ?r pre) = insert pivot (set pre)"
    by (metis append_take_drop_id list.simps(15) set_append Un_insert_right)
  then have c: "\<And>x y. x \<in> set (take ?r pre @ pivot # drop ?r pre) \<union> set rest
        \<Longrightarrow> y \<in> set (take ?r pre @ pivot # drop ?r pre) \<union> set rest
        \<Longrightarrow> (cmp x y < 0) = (key y < key x)"
    using Cons.prems(2) by auto
  show ?case
    using Cons.IH [OF s c] by (simp add: Let_def)
qed

lemma runLength_le: "runLength cmp d prev rest \<le> length rest"
  by (induction rest arbitrary: prev) (auto simp: Let_def)

lemma runLength_run:
  fixes key :: "'a \<Rightarrow> 'k::linorder"
  assumes "\<And>x y. x \<in> set (prev # rest) \<Longrightarrow> y \<in> set (prev # rest)
             \<Longrightarrow> (cmp x y < 0) = (key y < key x)"
  shows "sorted_wrt (\<lambda>x y. if d then key x < key y else key y \<le> key x)
           (prev # take (runLength cmp d prev rest) rest)"
  using assms
proof (induction rest arbitrary: prev)
  case Nil
  then show ?case by simp
next
  case (Cons cur rest)
  let ?P = "\<lambda>x y. if d then key x < key y else key y \<le> key x"
  have t: "transp ?P"
    by (auto simp: transp_def)
  show ?case
  proof (cases "if d then cmp cur prev \<ge> 0 else cmp cur prev < 0")
    case True
    then show ?thesis by (simp add: Let_def)
  next
    case False
    then have p: "?P prev cur"
      using Cons.prems [of cur prev] by (auto split: if_splits)
    have "sorted_wrt ?P (cur # take (runLength cmp d cur rest) rest)"
      by (rule Cons.IH) (use Cons.prems in auto)
    then have "sorted_wrt ?P (prev # cur # take (runLength cmp d cur rest) rest)"
      using p by (simp only: sorted_wrt2 [OF t] simp_thms)
    then show ?thesis using False by (simp add: Let_def)
  qed
qed

lemma countAndMakeRun_sorted:
  fixes key :: "'a \<Rightarrow> 'k::linorder"
  assumes "\<And>x y. x \<in> set xs \<Longrightarrow> y \<in> set xs \<Longrightarrow> (cmp x y < 0) = (key y < key x)"
      and "countAndMakeRun cmp xs = (n, w)"
  shows "sorted_wrt (\<lambda>x y. key y \<le> key x) (take n w)"
proof (cases xs)
  case Nil
  then show ?thesis using assms(2) by auto
next
  case (Cons h tl)
  show ?thesis
  proof (cases tl)
    case Nil
    then show ?thesis using assms(2) Cons by auto
  next
    case (Cons l rest)
    let ?d = "cmp l h < 0"
    let ?k = "runLength cmp ?d l rest"
    let ?P = "\<lambda>x y. if ?d then key x < key y else key y \<le> key x"
    have xs: "xs = h # l # rest"
      using \<open>xs = h # tl\<close> Cons by simp
    have n: "n = 2 + ?k"
      and w: "w = (if ?d then rev (take n xs) @ drop n xs else xs)"
      using assms(2) by (auto simp: xs Let_def)
    have le: "n \<le> length xs"
      using runLength_le [of cmp ?d l rest] by (simp add: n xs)
    have run: "take n xs = h # l # take ?k rest"
      by (simp add: n xs)
    have t: "transp ?P"
      by (auto simp: transp_def)
    have "sorted_wrt ?P (l # take ?k rest)"
      by (rule runLength_run) (use assms(1) xs in auto)
    moreover have "?P h l"
      using assms(1) [of l h] by (auto simp: xs)
    ultimately have s: "sorted_wrt ?P (take n xs)"
      unfolding run by (simp only: sorted_wrt2 [OF t] simp_thms)
    show ?thesis
    proof (cases ?d)
      case True
      then have "sorted_wrt (\<lambda>x y. key x < key y) (take n xs)"
        using s by simp
      then have "sorted_wrt (\<lambda>x y. key x \<le> key y) (take n xs)"
        by (rule sorted_wrt_mono_rel [rotated]) simp
      then have "sorted_wrt (\<lambda>x y. key y \<le> key x) (rev (take n xs))"
        by (simp add: sorted_wrt_rev)
      moreover have "take n w = rev (take n xs)"
        using True le by (simp add: w)
      ultimately show ?thesis by simp
    next
      case False
      then show ?thesis using s by (simp add: w)
    qed
  qed
qed

lemma countAndMakeRun_set:
  assumes "countAndMakeRun cmp xs = (n, w)"
  shows "set w = set xs"
  using mset_countAndMakeRun [of cmp xs] assms by (metis snd_conv set_mset_mset)

lemma sorted_js_sort:
  fixes key :: "'a \<Rightarrow> 'k::linorder"
  assumes "\<And>x y. x \<in> set xs \<Longrightarrow> y \<in> set xs \<Longrightarrow> (cmp x y < 0) = (key y < key x)"
  shows "sorted_wrt (\<lambda>x y. key y \<le> key x) (js_sort cmp xs)"
proof (cases "length xs < 2")
  case True
  then have "xs = [] \<or> (\<exists>x. xs = [x])"
    by (cases xs; cases "tl xs") auto
  then show ?thesis using True by (auto simp: js_sort_def)
next
  case False
  obtain n w where c: "countAndMakeRun cmp xs = (n, w)"
    by (cases "countAndMakeRun cmp xs")
  have s: "sorted_wrt (\<lambda>x y. key y \<le> key x) (take n w)"
    using assms c by (rule countAndMakeRun_sorted)
  have "set (take n w) \<union> set (drop n w) = set xs"
    using countAndMakeRun_set [OF c] by (metis append_take_drop_id set_append)
  then have "sorted_wrt (\<lambda>x y. key y \<le> key x) (binaryInsertionSort cmp (take n w) (drop n w))"
    using assms by (intro sorted_binaryInsertionSort [OF s]) auto
  then show ?thesis using False by (simp add: js_sort_def c)
qed

subsection \<open>What a reload leaves alone\<close>

lemma unhandled_fields [simp]:
  "globalError (unhandled localPromise s) = globalError s"
  "globalGist (unhandled localPromise s) = globalGist s"
  "globalSignees (unhandled localPromise s) = globalSignees s"
  "cacheFileGist (unhandled localPromise s) = cacheFileGist s"
  "cacheFileSignees (unhandled localPromise s) = cacheFileSignees s"
  "localFiles (unhandled localPromise s) = localFiles s"
  "uploads (unhandled localPromise s) = uploads s"
  by (simp_all add: unhandled_def split: option.splits sum.splits)


lemma unhandled_fulfilled [simp]:
  "unhandled None s = s"
  "unhandled (Some (Inr v)) s = s"
  by (simp_all add: unhandled_def)

lemma saveFileCache_globals [simp]:
  "globalError (saveFileCache cfg env gotCached gist signees s) = globalError s"
  "globalGist (saveFileCache cfg env gotCached gist signees s) = globalGist s"
  "globalSignees (saveFileCache cfg env gotCached gist signees s) = globalSignees s"
  "localFiles (saveFileCache cfg env gotCached gist signees s) = localFiles s"
  "uploads (saveFileCache cfg env gotCached gist signees s) = uploads s"
  "unhandledRejection (saveFileCache cfg env gotCached gist signees s) = unhandledRejection s"
  by (simp_all add: saveFileCache_def split: option.splits)

lemma finishReload_fields [simp]:
  "globalError (finishReload cfg env localPromise gotCached gist signees s) = globalError s"
  "globalGist (finishReload cfg env localPromise gotCached gist signees s) = gist"
  "globalSignees (finishReload cfg env localPromise gotCached gist signees s)
     = mergeLocalSignatures localPromise signees"
  "localFiles (finishReload cfg env localPromise gotCached gist signees s) = localFiles s"
  "uploads (finishReload cfg env localPromise gotCached gist signees s) = uploads s"
  "unhandledRejection (finishReload cfg env localPromise gotCached gist signees s)
     = unhandledRejection s"
  by (simp_all add: finishReload_def)



subsection \<open>Reload with the file cache as fallback\<close>

text \<open>
  When the upstream fetch fails, the file cache is configured and not disabled and both
  of its files load, and the local directory is listed (or local storage is off), the
  reload returns without an error, the global error state is unset, the published gist is
  the one loaded from the file cache, and the published signee map is the one loaded from
  the file cache with the local signatures merged in, up to the first one that is
  \<open>null\<close>.
\<close>

lemma fallback_adopts_cache:
  assumes "tryUpstream lib env = Inl (ex, gist0)"
      and "CLA_FILECACHE cfg \<noteq> []"
      and "readCacheFile_gist env = Inr cachedGist"
      and "readCacheFile_signees env = Inr cachedSignees"
      and "getLocalSignatures cfg env (localFiles s) = Inr (signatures, warned)"
  shows "\<exists>s'. globalReload cfg lib env ignoreErrors False s = (Inr (), s')
           \<and> globalError s' = None
           \<and> unhandledRejection s' = unhandledRejection s
           \<and> globalGist s' = Some cachedGist
           \<and> globalSignees s' = Some (mergeLoop cachedSignees signatures)"
proof (cases "CLA_FILELOCAL cfg = []")
  case True
  then have "signatures = []"
    using assms(5) by (simp add: getLocalSignatures_def)
  then show ?thesis
    using assms(1-4) True
    by (simp add: globalReload_def tryFileCache_def mergeLocalSignatures_def)
next
  case False
  then show ?thesis
    using assms
    by (simp add: globalReload_def tryFileCache_def mergeLocalSignatures_def)
qed

text \<open>
  Claim C2. The reload at startup with the CLA assistant timing out and the file cache
  holding an earlier answer: the claim has it complete without an error and publish the
  cached data with the local signatures merged in. When the directory of local
  signatures cannot be listed during the reload, the rejection of the promise of
  \<open>getLocalSignatures\<close> is unhandled, which ends the process: the \<open>catch\<close> that was written
  for this failure is attached too late. And when the first file of the directory holds
  \<open>null\<close>, the reload publishes the cached map alone: the two local signatures of
  \<open>alice\<close> that come after it are not merged in.
\<close>

theorem fallback_reload_fails_on_local_store:
  "tryUpstream ex_lib ex_unlisted =
     Inl (Error ''Failed to receive gist for the organization.''
            (Some (Exn ''AxiosError'' ''timeout of 30000ms exceeded'' None)), None)
   \<and> readCacheFile_gist ex_unlisted = Inr ex_gist
   \<and> readCacheFile_signees ex_unlisted = Inr ex_signees
   \<and> unhandledRejection (snd (globalReload ex_config ex_lib ex_unlisted True False ex_startup))
       = Some (Exn ''Error'' ''EACCES: permission denied, scandir local/signatures'' None)
   \<and> globalReload ex_config ex_lib ex_cached True False ex_null_first
       = (Inr (), ex_null_first\<lparr>globalGist := Some ex_gist, globalSignees := Some ex_signees\<rparr>)
   \<and> \<not> hasSignature ex_signees ex_newer
   \<and> \<not> hasSignature ex_signees ex_older
   \<and> globalSignees (snd (globalReload ex_config ex_lib ex_cached True False ex_startup))
       = Some \<lparr>entries = [(''alice'', [ex_older, ex_upstream, ex_newer])],
                timestamp = ''2024-06-01T12:00:00.000Z''\<rparr>"
  by code_simp

subsection \<open>A failed reload\<close>

text \<open>
  Claim C3. When \<open>globalReload\<close> throws (the error is surfaced, so no fallback result was
  adopted), the published gist and signee map are the ones published before the call;
  only the global error state changes, to the error thrown.
\<close>

theorem failed_reload_keeps_snapshot:
  assumes "globalReload cfg lib env ignoreErrors disableCache s = (Inl ex, s')"
  shows "globalGist s' = globalGist s \<and> globalSignees s' = globalSignees s
         \<and> globalError s' = Some ex \<and> \<not> ignoreErrors"
  using assms
  by (auto simp: globalReload_def Let_def split: sum.splits prod.splits option.splits if_splits)

theorem failed_reload_keeps_snapshot_witness:
  "globalReload ex_config ex_lib ex_down False True ex_state
     = (Inl (Error ''Failed to receive gist for the organization.''
               (Some (Exn ''AxiosError'' ''timeout of 30000ms exceeded'' None))),
        ex_state\<lparr>globalError := Some (Error ''Failed to receive gist for the organization.''
               (Some (Exn ''AxiosError'' ''timeout of 30000ms exceeded'' None)))\<rparr>)
   \<and> globalGist (ex_state\<lparr>globalError := Some (Error ''Failed to receive gist for the organization.''
               (Some (Exn ''AxiosError'' ''timeout of 30000ms exceeded'' None)))\<rparr>) = Some ex_gist
   \<and> globalSignees (ex_state\<lparr>globalError := Some (Error ''Failed to receive gist for the organization.''
               (Some (Exn ''AxiosError'' ''timeout of 30000ms exceeded'' None)))\<rparr>) = Some ex_signees"
proof -
  have r: "globalReload ex_config ex_lib ex_down False True ex_state
     = (Inl (Error ''Failed to receive gist for the organization.''
               (Some (Exn ''AxiosError'' ''timeout of 30000ms exceeded'' None))),
        ex_state\<lparr>globalError := Some (Error ''Failed to receive gist for the organization.''
               (Some (Exn ''AxiosError'' ''timeout of 30000ms exceeded'' None)))\<rparr>)"
    by code_simp
  have "globalGist ex_state = Some ex_gist" "globalSignees ex_state = Some ex_signees"
    by (simp_all add: ex_state_def)
  with failed_reload_keeps_snapshot [OF r] r show ?thesis by simp
qed

subsection \<open>An empty version history\<close>

text \<open>
  Claim C6. When the CLA assistant answers the \<open>getGist\<close> call with an empty history,
  \<open>getGist\<close> fails with the upstream error (whose cause says that no gist history is
  available) instead of returning a gist without versions; and a reload that meets this
  with no usable fallback (the file cache is not configured, is disabled for the call, or
  fails to load) fails: the global error state is set to the error, which is thrown to
  the caller unless the reload ignores errors.
\<close>

theorem empty_history_degrades:
  assumes "getGist_answer env = Inr data"
      and "history data = []"
      and "CLA_FILECACHE cfg = [] \<or> disableCache
           \<or> isl (readCacheFile_gist env) \<or> isl (readCacheFile_signees env)"
  shows "getGist (Inr data) =
           Inl (Error ''Failed to receive gist for the organization.''
                  (Some (Error ''No gist history available.'' None)))
         \<and> (\<exists>ex s'. globalReload cfg lib env ignoreErrors disableCache s
                       = (if ignoreErrors then Inr () else Inl ex, s')
                     \<and> globalError s' = Some ex
                     \<and> (ex = Error ''Failed to receive gist for the organization.''
                                  (Some (Error ''No gist history available.'' None))
                          \<or> (\<exists>exfs. ex = new_AggregateError
                                 (ArgStr ''Both CLA and file cache failed.'')
                                 (ArgErrs [Error ''Failed to receive gist for the organization.''
                                             (Some (Error ''No gist history available.'' None)),
                                           exfs]))))"
proof -
  let ?up = "Error ''Failed to receive gist for the organization.''
               (Some (Error ''No gist history available.'' None))"
  have g: "getGist (Inr data) = Inl ?up"
    using assms(2) by (simp add: getGist_def)
  then have u: "tryUpstream lib env = Inl (?up, None)"
    using assms(1) by (simp add: tryUpstream_def)
  have "\<exists>ex gist. tryFileCache cfg env disableCache ?up None = (Some ex, gist, None, False)
          \<and> (ex = ?up \<or> (\<exists>exfs. ex = new_AggregateError
                (ArgStr ''Both CLA and file cache failed.'') (ArgErrs [?up, exfs])))"
    using assms(3) by (auto simp: tryFileCache_def isl_def split: sum.splits)
  then obtain ex gist
    where t: "tryFileCache cfg env disableCache ?up None = (Some ex, gist, None, False)"
      and e: "ex = ?up \<or> (\<exists>exfs. ex = new_AggregateError
                (ArgStr ''Both CLA and file cache failed.'') (ArgErrs [?up, exfs]))"
    by blast
  show ?thesis
    using g e by (auto simp: globalReload_def Let_def u t)
qed

theorem empty_history_degrades_witness:
  "getGist_answer ex_no_history = Inr (ex_gist_response\<lparr>history := []\<rparr>)
   \<and> history (ex_gist_response\<lparr>history := []\<rparr>) = []
   \<and> (CLA_FILECACHE ex_config = [] \<or> True
        \<or> isl (readCacheFile_gist ex_no_history) \<or> isl (readCacheFile_signees ex_no_history))
   \<and> getGist (Inr (ex_gist_response\<lparr>history := []\<rparr>)) =
        Inl (Error ''Failed to receive gist for the organization.''
               (Some (Error ''No gist history available.'' None)))
   \<and> globalReload ex_config ex_lib ex_no_history False True ex_state =
        (Inl (Error ''Failed to receive gist for the organization.''
                (Some (Error ''No gist history available.'' None))),
         ex_state\<lparr>globalError := Some (Error ''Failed to receive gist for the organization.''
                (Some (Error ''No gist history available.'' None)))\<rparr>)"
proof -
  have h1: "getGist_answer ex_no_history = Inr (ex_gist_response\<lparr>history := []\<rparr>)"
    by (simp add: ex_no_history_def)
  have h2: "history (ex_gist_response\<lparr>history := []\<rparr>) = []"
    by simp
  have h3: "CLA_FILECACHE ex_config = [] \<or> True
        \<or> isl (readCacheFile_gist ex_no_history) \<or> isl (readCacheFile_signees ex_no_history)"
    by simp
  have r: "globalReload ex_config ex_lib ex_no_history False True ex_state =
        (Inl (Error ''Failed to receive gist for the organization.''
                (Some (Error ''No gist history available.'' None))),
         ex_state\<lparr>globalError := Some (Error ''Failed to receive gist for the organization.''
                (Some (Error ''No gist history available.'' None)))\<rparr>)"
    by code_simp
  from empty_history_degrades [OF h1 h2 h3, of ex_lib False ex_state] h1 h2 h3 r
  show ?thesis by simp
qed

subsection \<open>Both the CLA assistant and the file cache fail\<close>

text \<open>
  Claim C7. The reload at startup with the CLA assistant timing out and the file cache
  missing records one \<open>AggregateError\<close> as the global error. The source calls
  \<^verbatim>\<open>new AggregateError("Both CLA and file cache failed.", [ex, exfs])\<close>, with the message
  in the place of the errors: the \<open>errors\<close> of the recorded error are the characters of
  that sentence, neither of the two errors is among them, and its message is the two
  errors printed and joined by a comma (the cause of the upstream error is not in it).
\<close>

theorem aggregate_error_loses_causes:
  "globalReload ex_config ex_lib ex_down True False ex_startup =
     (Inr (),
      ex_startup\<lparr>globalError :=
                    Some (AggregateError
                            (map (\<lambda>c. ItemStr [c]) ''Both CLA and file cache failed.'')
                            ''Error: Failed to receive gist for the organization.,Error: ENOENT: no such file or directory'')\<rparr>)
   \<and> ItemErr (Error ''Failed to receive gist for the organization.''
                (Some (Exn ''AxiosError'' ''timeout of 30000ms exceeded'' None)))
         \<notin> set (map (\<lambda>c. ItemStr [c]) ''Both CLA and file cache failed.'')
   \<and> ItemErr (Exn ''Error'' ''ENOENT: no such file or directory'' None)
         \<notin> set (map (\<lambda>c. ItemStr [c]) ''Both CLA and file cache failed.'')"
  by code_simp

subsection \<open>The order of a signatory list\<close>

text \<open>
  A list in which every signature has \<open>gist_committed_at\<close>, or none has, is sorted in
  descending order of the key: on such a list \<open>signatureComparer\<close> is consistent.
\<close>

lemma signatureComparer_key:
  assumes "(gist_committed_at a = None) = (gist_committed_at b = None)"
  shows "(signatureComparer a b < 0) = (signatureKey b < signatureKey a)"
    and "keyLess a b = (signatureKey a < signatureKey b)"
  using assms
  by (cases "gist_committed_at a"; cases "gist_committed_at b";
      auto simp: signatureComparer_def signatureKey_def keyLess_def less_prod_def less_eq_prod_def)+

lemma uniform_lists_are_sorted:
  assumes "uniformVersions signatures"
  shows "sortedDescending (js_sort signatureComparer signatures)"
proof -
  have same: "(gist_committed_at a = None) = (gist_committed_at b = None)"
    if "a \<in> set signatures" "b \<in> set signatures" for a b
    using assms that by (auto simp: uniformVersions_def list_all_iff)
  have "sorted_wrt (\<lambda>a b. signatureKey b \<le> signatureKey a) (js_sort signatureComparer signatures)"
  proof (rule sorted_js_sort)
    fix x y
    assume "x \<in> set signatures" and "y \<in> set signatures"
    then show "(signatureComparer x y < 0) = (signatureKey y < signatureKey x)"
      by (intro signatureComparer_key(1) same)
  qed
  then have "sorted_wrt (\<lambda>a b. \<not> keyLess a b) (js_sort signatureComparer signatures)"
  proof (rule sorted_wrt_mono_rel [rotated])
    fix a b
    assume "a \<in> set (js_sort signatureComparer signatures)"
      and "b \<in> set (js_sort signatureComparer signatures)"
      and le: "signatureKey b \<le> signatureKey a"
    then have "a \<in> set signatures" and "b \<in> set signatures"
      by simp_all
    then have "keyLess a b = (signatureKey a < signatureKey b)"
      by (intro signatureComparer_key(2) same)
    with le show "\<not> keyLess a b"
      by (simp add: not_less)
  qed
  then show ?thesis by (simp add: sortedDescending_def)
qed

text \<open>
  Claim C1. A reload publishes for \<open>alice\<close> the list of her upstream signature and her two
  local signatures, all three created at the same instant. The list comes out as: the
  local signature updated on 2 June, the upstream signature, the local signature
  updated on 3 June. The two local signatures agree on \<open>created_at\<close> and on
  \<open>gist_committed_at\<close> (both have none), so the one at index 0 has the smaller key: the
  list is not in descending order and index 0 does not hold the maximum. The cause is
  that \<open>signatureComparer\<close> answers \<open>-1\<close> in both directions for two signatures with
  equal \<open>created_at\<close> of which exactly one has \<open>gist_committed_at\<close>.
\<close>

theorem local_signatures_break_order:
  "globalSignees (snd (globalReload ex_config ex_lib ex_up False True ex_state)) =
     Some \<lparr>entries = [(''alice'', [ex_older, ex_upstream, ex_newer])],
           timestamp = ''2024-06-04T12:00:00.000Z''\<rparr>
   \<and> \<not> sortedDescending [ex_older, ex_upstream, ex_newer]
   \<and> keyLess ex_older ex_newer
   \<and> signatureComparer ex_upstream ex_newer = - 1
   \<and> signatureComparer ex_newer ex_upstream = - 1"
  by code_simp


subsection \<open>Writing and reading the file cache\<close>

text \<open>
  Claim C5. Writing a signee map with \<open>writeCacheFile\<close> and reading the file back with
  \<open>readCacheFile\<close> does not give the map back when a custom field holds the empty
  string: the reviver returns \<open>undefined\<close> for every falsy value, so the field
  \<open>company\<close> of the signature is gone after the round trip (the same happens to
  \<open>false\<close>, \<open>0\<close> and \<open>null\<close>). The map and the date that are read back also carry the
  tags \<open>__map\<close> and \<open>__date\<close> as properties.
\<close>

theorem cache_round_trip_drops_empty_field:
  "readCacheFile (writeCacheFile None ex_cache_signees) =
     Inr (VMap [(VStr ''alice'', VArr [ex_cache_signature [(''name'', VStr ''Alice'')]])]
               [(''timestamp'', VDate (Some ''2024-06-04T12:00:00.000Z'')
                                  [(''__date'', VStr ''2024-06-04T12:00:00.000Z'')]),
                (''__map'', VArr [VArr [VStr ''alice'',
                                        VArr [ex_cache_signature [(''name'', VStr ''Alice'')]]]])])
   \<and> ex_cache_signature [(''name'', VStr ''Alice'')]
       \<noteq> ex_cache_signature [(''name'', VStr ''Alice''), (''company'', VStr [])]"
  by code_simp

subsection \<open>Reading the local signatures\<close>

lemma readLocalFile_step:
  "readLocalFile env (signatures, warned) entry =
     (if readable env entry
      then (signatures @ [signature. Inr signature \<leftarrow> [parseFile (snd entry)]], warned)
      else (signatures, warned @ [fst entry]))"
  by (cases entry; cases "parseFile (snd entry)"; cases "readFile_fails env (fst entry)")
     (simp_all add: readLocalFile_def readable_def)

lemma foldl_readLocalFile:
  "foldl (readLocalFile env) (signatures, warned) dir =
     (signatures @ [signature. (name, content) \<leftarrow> filter (readable env) dir,
                               Inr signature \<leftarrow> [parseFile content]],
      warned @ map fst (filter (\<lambda>entry. \<not> readable env entry) dir))"
proof (induction dir arbitrary: signatures warned)
  case Nil
  then show ?case by simp
next
  case (Cons entry dir)
  show ?case
    by (cases "readable env entry"; cases entry) (simp_all add: readLocalFile_step Cons.IH)
qed

text \<open>
  Claim C9. With local storage configured and the directory listed, \<open>getLocalSignatures\<close>
  never fails: it returns, in the order of the directory, what \<^verbatim>\<open>JSON.parse\<close> makes of
  exactly the files that can be read and hold JSON, and reports every other file with a
  warning; a file that fails neither fails the call nor keeps a later file out.
\<close>

theorem local_read_skips_failing_files:
  assumes "CLA_FILELOCAL cfg \<noteq> []"
      and "readdir_fails env = None"
  shows "getLocalSignatures cfg env dir =
           Inr ([signature. (name, content) \<leftarrow> filter (readable env) dir,
                            Inr signature \<leftarrow> [parseFile content]],
                map fst (filter (\<lambda>entry. \<not> readable env entry) dir))"
  using assms foldl_readLocalFile [of env "[]" "[]" dir]
  by (simp add: getLocalSignatures_def)

theorem local_read_skips_failing_files_witness:
  "CLA_FILELOCAL ex_config \<noteq> []
   \<and> readdir_fails ex_fs = None
   \<and> getLocalSignatures ex_config ex_fs ex_dir
       = Inr ([Some ex_newer], [''notes.json'', ''alice%231717300000000.pdf.json''])"
proof -
  have h1: "CLA_FILELOCAL ex_config \<noteq> []"
    by (simp add: ex_config_def)
  have h2: "readdir_fails ex_fs = None"
    by (simp add: ex_fs_def)
  have e1: "[signature. (name, content) \<leftarrow> filter (readable ex_fs) ex_dir,
                        Inr signature \<leftarrow> [parseFile content]] = [Some ex_newer]"
    by code_simp
  have e2: "map fst (filter (\<lambda>entry. \<not> readable ex_fs entry) ex_dir)
              = [''notes.json'', ''alice%231717300000000.pdf.json'']"
    by code_simp
  from local_read_skips_failing_files [OF h1 h2, of ex_dir] h1 h2
  show ?thesis unfolding e1 e2 by simp
qed

subsection \<open>No signatory list is empty\<close>














subsection \<open>A local signature after its upload and after later reloads\<close>









text \<open>
  The files of the signatures: signatures with different \<open>gist_url\<close> have different
  files, and a call leaves alone every file but the one it writes.
\<close>

lemma localFileName_distinct:
  assumes "gist_url a = Some x" and "gist_url b = Some y"
  shows "(localFileName a = localFileName b) = (x = y)"
  using assms by (simp add: localFileName_def)







subsection \<open>Lookup by custom-field values\<close>

lemma map_of_pushSignature:
  "map_of (pushSignature m signature) =
     (map_of m)(user signature \<mapsto>
        (case map_of m (user signature) of None \<Rightarrow> [signature] | Some l \<Rightarrow> l @ [signature]))"
  by (simp add: pushSignature_def update_conv' split: option.splits)

lemma map_of_foldl_pushSignature:
  "map_of (foldl pushSignature m signatures) u =
     (case map_of m u of
        None \<Rightarrow> (if filter (\<lambda>s. user s = u) signatures = [] then None
                  else Some (filter (\<lambda>s. user s = u) signatures))
      | Some l \<Rightarrow> Some (l @ filter (\<lambda>s. user s = u) signatures))"
  by (induction signatures arbitrary: m)
     (auto simp: map_of_pushSignature split: option.splits)

lemma distinct_pushSignature:
  "distinct (map fst m) \<Longrightarrow> distinct (map fst (pushSignature m signature))"
  by (simp add: pushSignature_def distinct_update split: option.splits)

lemma distinct_foldl_pushSignature:
  "distinct (map fst m) \<Longrightarrow> distinct (map fst (foldl pushSignature m signatures))"
  by (induction signatures arbitrary: m) (simp_all add: distinct_pushSignature)

lemma byUser_entry:
  "(u, l) \<in> set (foldl pushSignature [] signatures)
     \<longleftrightarrow> l = filter (\<lambda>s. user s = u) signatures \<and> l \<noteq> []"
proof -
  have d: "distinct (map fst (foldl pushSignature [] signatures))"
    by (simp add: distinct_foldl_pushSignature)
  have "(u, l) \<in> set (foldl pushSignature [] signatures)
          \<longleftrightarrow> map_of (foldl pushSignature [] signatures) u = Some l"
    using d by simp
  then show ?thesis
    by (auto simp: map_of_foldl_pushSignature)
qed

lemma map_of_keys:
  "map_of (map (\<lambda>k. (k, f k)) ks) k = (if k \<in> set ks then Some (f k) else None)"
  by (induction ks) auto

lemma coalesced_set:
  "set (concat (map snd (filter (\<lambda>(u, signee). P u) (foldl pushSignature [] signatures))))
     = {other \<in> set signatures. P (user other)}"
proof (intro set_eqI iffI)
  fix x
  assume "x \<in> set (concat (map snd (filter (\<lambda>(u, signee). P u) (foldl pushSignature [] signatures))))"
  then obtain u l where "(u, l) \<in> set (foldl pushSignature [] signatures)" "P u" "x \<in> set l"
    by auto
  then show "x \<in> {other \<in> set signatures. P (user other)}"
    by (auto simp: byUser_entry)
next
  fix x
  assume "x \<in> {other \<in> set signatures. P (user other)}"
  then have x: "x \<in> set signatures" and p: "P (user x)"
    by auto
  let ?l = "filter (\<lambda>s. user s = user x) signatures"
  have "x \<in> set ?l"
    using x by simp
  moreover from this have "?l \<noteq> []"
    by (metis empty_iff empty_set)
  then have "(user x, ?l) \<in> set (foldl pushSignature [] signatures)"
    by (simp only: byUser_entry simp_thms)
  ultimately show "x \<in> set (concat (map snd (filter (\<lambda>(u, signee). P u) (foldl pushSignature [] signatures))))"
    using p by force
qed

text \<open>
  Without lookup fields the builder modelled from the spec is the builder of the source;
  and the builder of the source has no entry for a custom-field value.
\<close>

lemma filter_fst_distinct:
  "distinct (map fst al) \<Longrightarrow> (k, v) \<in> set al \<Longrightarrow> filter (\<lambda>(u, x). u = k) al = [(k, v)]"
proof (induction al)
  case Nil
  then show ?case by simp
next
  case (Cons p al)
  show ?case
  proof (cases "p = (k, v)")
    case True
    then have "k \<notin> fst ` set al" using Cons.prems(1) by auto
    then have "filter (\<lambda>(u, x). u = k) al = []"
      by (force simp: filter_empty_conv)
    with True show ?thesis by simp
  next
    case False
    then have m: "(k, v) \<in> set al" using Cons.prems(2) by auto
    then have "fst p \<noteq> k" using Cons.prems(1) by (cases p) force
    then show ?thesis using Cons.IH Cons.prems(1) m by (cases p) auto
  qed
qed

lemma lookup_without_fields: "buildSigneesLookup [] now values = buildSignees now values"
proof -
  let ?sigs = "concat values"
  let ?byUser = "foldl pushSignature [] ?sigs"
  have d: "distinct (map fst ?byUser)"
    by (simp add: distinct_foldl_pushSignature)
  have lv: "lookupValues [] s = []" for s
    by (simp add: lookupValues_def map_filter_simps split: option.splits custom_fields.splits)
  have r: "resolves [] ?sigs key u \<longleftrightarrow> u = key" for key u
    by (simp add: resolves_def lv)
  have c: "concat (map (lookupValues []) ?sigs) = []"
    by (simp add: lv)
  have k: "remdups (map fst ?byUser @ concat (map (lookupValues []) ?sigs)) = map fst ?byUser"
    unfolding c using d by (simp add: distinct_remdups_id)
  have e: "map (\<lambda>key. (key, js_sort signatureComparer
              (concat (map snd (filter (\<lambda>(u, signee). u = key) ?byUser))))) (map fst ?byUser)
        = map (\<lambda>(u, signee). (u, js_sort signatureComparer signee)) ?byUser"
    using d by (auto simp: filter_fst_distinct)
  have "entries (buildSigneesLookup [] now values)
          = map (\<lambda>key. (key, js_sort signatureComparer
              (concat (map snd (filter (\<lambda>(u, signee). u = key) ?byUser))))) (map fst ?byUser)"
    by (simp add: buildSigneesLookup_def Let_def r k del: map_map)
  also have "\<dots> = entries (buildSignees now values)"
    unfolding e by (simp add: buildSignees_def)
  finally have "entries (buildSigneesLookup [] now values) = entries (buildSignees now values)" .
  moreover have "timestamp (buildSigneesLookup [] now values) = timestamp (buildSignees now values)"
    by (simp add: buildSigneesLookup_def buildSignees_def Let_def)
  ultimately show ?thesis
    by (rule signees.equality) simp
qed

lemma source_builder_has_no_lookup_key:
  "map_of (entries (buildSignees ''2024-06-04T12:00:00.000Z'' ex_values)) ''42'' = None"
  by code_simp

text \<open>
  Claim C8. With a list of lookup field names configured, the built map has an entry
  for every value that one of these custom fields takes in some signature; the keys of
  the map are distinct, so a lookup by the value yields one list; and the list holds
  exactly the signatures of all subjects the value resolves to: every signature of every
  subject that has a signature carrying the value (and of the subject named like the
  value, if there is one).
\<close>

theorem lookup_value_coalesces_subjects:
  assumes "signature \<in> set (concat values)"
      and "key \<in> set (lookupValues lookupFields signature)"
  shows "\<exists>signatures.
           map_of (entries (buildSigneesLookup lookupFields now values)) key = Some signatures
         \<and> distinct (map fst (entries (buildSigneesLookup lookupFields now values)))
         \<and> set signatures =
             {other \<in> set (concat values). resolves lookupFields (concat values) key (user other)}"
proof -
  let ?sigs = "concat values"
  let ?byUser = "foldl pushSignature [] ?sigs"
  let ?keys = "remdups (map fst ?byUser @ concat (map (lookupValues lookupFields) ?sigs))"
  let ?list = "\<lambda>key. js_sort signatureComparer
                 (concat (map snd (filter (\<lambda>(u, signee). resolves lookupFields ?sigs key u) ?byUser)))"
  have e: "entries (buildSigneesLookup lookupFields now values) = map (\<lambda>key. (key, ?list key)) ?keys"
    by (simp add: buildSigneesLookup_def Let_def)
  have k: "key \<in> set ?keys"
    using assms by auto
  have m: "map_of (entries (buildSigneesLookup lookupFields now values)) key = Some (?list key)"
    unfolding e using k by (simp only: map_of_keys if_True)
  have d: "distinct (map fst (entries (buildSigneesLookup lookupFields now values)))"
    unfolding e by (simp add: comp_def)
  have s: "set (?list key) = {other \<in> set ?sigs. resolves lookupFields ?sigs key (user other)}"
    by (simp only: set_js_sort coalesced_set)
  show ?thesis using m d s by blast
qed

theorem lookup_value_coalesces_subjects_witness:
  "ex_member ''a1'' ''alice'' [(''internalId'', ''42'')] \<in> set (concat ex_values)
   \<and> ''42'' \<in> set (lookupValues [''internalId''] (ex_member ''a1'' ''alice'' [(''internalId'', ''42'')]))
   \<and> map_of (entries (buildSigneesLookup [''internalId''] ''2024-06-04T12:00:00.000Z'' ex_values)) ''42''
       = Some [ex_member ''a1'' ''alice'' [(''internalId'', ''42'')], ex_member ''a2'' ''alice'' [],
               ex_member ''k1'' ''a.k.a'' [(''internalId'', ''42'')]]
   \<and> set [ex_member ''a1'' ''alice'' [(''internalId'', ''42'')], ex_member ''a2'' ''alice'' [],
           ex_member ''k1'' ''a.k.a'' [(''internalId'', ''42'')]]
       = {other \<in> set (concat ex_values). resolves [''internalId''] (concat ex_values) ''42'' (user other)}"
proof -
  have h1: "ex_member ''a1'' ''alice'' [(''internalId'', ''42'')] \<in> set (concat ex_values)"
    by (simp add: ex_values_def)
  have h2: "''42'' \<in> set (lookupValues [''internalId''] (ex_member ''a1'' ''alice'' [(''internalId'', ''42'')]))"
    by code_simp
  have e: "map_of (entries (buildSigneesLookup [''internalId''] ''2024-06-04T12:00:00.000Z'' ex_values)) ''42''
       = Some [ex_member ''a1'' ''alice'' [(''internalId'', ''42'')], ex_member ''a2'' ''alice'' [],
               ex_member ''k1'' ''a.k.a'' [(''internalId'', ''42'')]]"
    by code_simp
  from lookup_value_coalesces_subjects [OF h1 h2, of "''2024-06-04T12:00:00.000Z''"] e h1 h2
  show ?thesis by auto
qed

end
